theory Spec2Isabelle
  imports Main
begin

section \<open>Exam timetabling through an SMT solver: the program \<open>main.py\<close>\<close>

text \<open>
  The program reads an instance (students, exams, slots, rooms, room capacities and a list
  of registrations), states the timetabling constraints as first-order formulas over
  uninterpreted functions, hands them to the Z3 solver and prints the model it gets back.

  The embedding follows the source function by function. Python integers are \<open>int\<close>.
  Exceptions are values: \<open>Exception\<close> is the generic exception the parser raises, the other
  four are the ones Python itself raises (\<open>ValueError\<close> in \<open>int\<close>, \<open>OverflowError\<close> and
  \<open>MemoryError\<close> when a list is made, \<open>IndexError\<close> for a list index out of range). What
  depends on the Python the program runs on is a parameter, the record \<open>python\<close>. A Z3
  formula is its meaning: a predicate on interpretations of the uninterpreted functions. Z3
  itself is not part of the program: the answer of \<open>s.check()\<close> (with the model of
  \<open>s.model()\<close> when the answer is \<open>sat\<close>) is a parameter of \<open>solve\<close>, and what is known of it
  is the predicate \<open>z3_answer_ok\<close>. The two timers and the line that prints the elapsed time
  are left out.
\<close>

subsection \<open>Data\<close>

record Instance =
  number_of_students :: int
  number_of_exams :: int
  number_of_slots :: int
  number_of_rooms :: int
  room_capacities :: "int list"
  exams_to_students :: "(int \<times> int) list"
  student_exam_capacity :: "int list"

datatype error = Exception | ValueError | OverflowError | MemoryError | IndexError

text \<open>
  A character is its Unicode code point, the integer \<open>ord\<close> gives, and a string the list
  of its characters; \<open>ascii\<close> gives the string of an ASCII literal.
\<close>

type_synonym str = "int list"

definition ascii :: "string \<Rightarrow> str" where
  "ascii s = map of_char s"

text \<open>
  What the program takes from the Python it runs on. \<open>isspace c\<close> says that \<open>c\<close> is a
  whitespace character, which is when \<open>\s\<close> matches it; \<open>decimal c\<close> is the value of \<open>c\<close> when
  \<open>c\<close> is a decimal digit, which is when \<open>\d\<close> matches it and \<open>int\<close> reads it (in Unicode
  these are many more than the ten ASCII digits); no character is both.
  \<open>int_max_str_digits\<close> is the number of digits beyond which \<open>int\<close> refuses a string: \<open>0\<close>
  when there is no limit (as in older versions), otherwise 4300 unless configured.
  \<open>maxsize\<close> is \<open>sys.maxsize\<close>, the largest number that can be the length of a list, and
  \<open>allocates n\<close> says that Python gets the memory for the list \<open>[0] * n\<close> when line 45 asks
  for it. Memory is taken to be there for everything else.
\<close>

record python =
  isspace :: "int \<Rightarrow> bool"
  decimal :: "int \<Rightarrow> nat option"
  int_max_str_digits :: int
  maxsize :: int
  allocates :: "int \<Rightarrow> bool"

text \<open>
  Python's \<open>range(n)\<close>, and \<open>xs[i]\<close>: an index from \<open>-len(xs)\<close> up to \<open>-1\<close> counts from the end,
  any other index outside the list raises \<open>IndexError\<close>.
\<close>

definition py_range :: "int \<Rightarrow> int list" where
  "py_range n = [0..n - 1]"

definition py_position :: "nat \<Rightarrow> int \<Rightarrow> error + nat" where
  "py_position n i =
     (if 0 \<le> i \<and> i < int n then Inr (nat i)
      else if i < 0 \<and> - int n \<le> i then Inr (nat (int n + i))
      else Inl IndexError)"

definition py_index :: "'a list \<Rightarrow> int \<Rightarrow> error + 'a" where
  "py_index xs i =
     (case py_position (length xs) i of Inl e \<Rightarrow> Inl e | Inr k \<Rightarrow> Inr (xs ! k))"

text \<open>A sequence of steps each of which may raise: the first exception ends it.\<close>

fun raise_first :: "('e + 'a) list \<Rightarrow> 'e + 'a list" where
  "raise_first [] = Inr []"
| "raise_first (Inl e # _) = Inl e"
| "raise_first (Inr x # xs) =
     (case raise_first xs of Inl e \<Rightarrow> Inl e | Inr ys \<Rightarrow> Inr (x # ys))"

subsection \<open>Reading an instance: \<open>read_file\<close>\<close>

text \<open>
  The open file is the list of the lines that are still to be read, each as \<open>readline\<close>
  returns it (decoded, and with its newline). At the end of the file \<open>readline\<close> returns the
  empty string.
\<close>

definition readline :: "str list \<Rightarrow> str \<times> str list" where
  "readline f = (case f of [] \<Rightarrow> ([], []) | line # rest \<Rightarrow> (line, rest))"

definition is_space :: "python \<Rightarrow> int \<Rightarrow> bool" where
  "is_space py c = isspace py c"

definition is_digit :: "python \<Rightarrow> int \<Rightarrow> bool" where
  "is_digit py c = (decimal py c \<noteq> None)"

text \<open>
  \<open>int(s)\<close> on a string that \<open>\d+\<close> has matched, so a string of decimal digits: the number
  they write in base ten, or \<open>ValueError\<close> when there is a limit and the string has more
  digits than that (leading zeros count). A character that is no digit, which the match
  excludes, would count as \<open>0\<close> in \<open>digit_value\<close>.
\<close>

definition digit_value :: "python \<Rightarrow> int \<Rightarrow> int" where
  "digit_value py c = (case decimal py c of Some d \<Rightarrow> int d | None \<Rightarrow> 0)"

definition py_int :: "python \<Rightarrow> str \<Rightarrow> error + int" where
  "py_int py ds =
     (if 0 < int_max_str_digits py \<and> int_max_str_digits py < int (length ds)
      then Inl ValueError
      else Inr (foldl (\<lambda>n c. 10 * n + digit_value py c) 0 ds))"

text \<open>\<open>str(n)\<close>, as the f-string of line 33 formats the number of a room.\<close>

fun str_nat :: "nat \<Rightarrow> str" where
  "str_nat n =
     (if n < 10 then [48 + int n]
      else str_nat (n div 10) @ [48 + int (n mod 10)])"

definition py_str :: "int \<Rightarrow> str" where
  "py_str i = (if i < 0 then 45 # str_nat (nat (- i)) else str_nat (nat i))"

text \<open>
  \<open>re.match(f'{name}:\\s*(\\d+)$', line)\<close>, giving group 1. The names used have no character
  that is special in a pattern. The classes \<open>\s\<close> and \<open>\d\<close> are disjoint, so the greedy match is
  the only one; \<open>$\<close> matches at the end and before a newline (code point 10) that ends the
  string.
\<close>

definition re_attribute :: "python \<Rightarrow> str \<Rightarrow> str \<Rightarrow> str option" where
  "re_attribute py name line =
     (let p = name @ ascii '':'' in
      if take (length p) line = p then
        (let rest = dropWhile (is_space py) (drop (length p) line);
             ds = takeWhile (is_digit py) rest;
             tl = dropWhile (is_digit py) rest
         in if ds \<noteq> [] \<and> (tl = [] \<or> tl = [10]) then Some ds else None)
      else None)"

text \<open>Lines 17 to 23.\<close>

definition read_attribute :: "python \<Rightarrow> str \<Rightarrow> str list \<Rightarrow> error + (int \<times> str list)" where
  "read_attribute py name f =
     (case readline f of
        (line, f') \<Rightarrow>
          (case re_attribute py name line of
             Some g \<Rightarrow> (case py_int py g of Inl e \<Rightarrow> Inl e | Inr n \<Rightarrow> Inr (n, f'))
           | None \<Rightarrow> Inl Exception))"

text \<open>Lines 32 and 33, for the room numbers \<open>rs\<close> still to come.\<close>

fun read_rooms :: "python \<Rightarrow> int list \<Rightarrow> str list \<Rightarrow> error + (int list \<times> str list)" where
  "read_rooms py [] f = Inr ([], f)"
| "read_rooms py (r # rs) f =
     (case read_attribute py (ascii ''Room '' @ py_str r @ ascii '' capacity'') f of
        Inl e \<Rightarrow> Inl e
      | Inr (c, f') \<Rightarrow>
          (case read_rooms py rs f' of
             Inl e \<Rightarrow> Inl e
           | Inr (cs, f'') \<Rightarrow> Inr (c # cs, f'')))"

text \<open>\<open>re.match('^\\s*(\\d+)\\s+(\\d+)\\s*$', l)\<close>, giving groups 1 and 2.\<close>

definition re_registration :: "python \<Rightarrow> str \<Rightarrow> (str \<times> str) option" where
  "re_registration py l =
     (let r1 = dropWhile (is_space py) l;
          d1 = takeWhile (is_digit py) r1;
          r2 = dropWhile (is_digit py) r1;
          r3 = dropWhile (is_space py) r2;
          d2 = takeWhile (is_digit py) r3;
          r4 = dropWhile (is_space py) (dropWhile (is_digit py) r3)
      in if d1 \<noteq> [] \<and> r3 \<noteq> r2 \<and> d2 \<noteq> [] \<and> r4 = [] then Some (d1, d2) else None)"

text \<open>
  Lines 35 to 43: the loop ends at the end of the file. In the pair of line 41 the exam is
  converted first.
\<close>

fun read_registrations :: "python \<Rightarrow> str list \<Rightarrow> error + (int \<times> int) list" where
  "read_registrations py [] = Inr []"
| "read_registrations py (l # f) =
     (if l = [] then Inr []
      else
        (case re_registration py l of
           None \<Rightarrow> Inl Exception
         | Some (g1, g2) \<Rightarrow>
             (case py_int py g1 of
                Inl e \<Rightarrow> Inl e
              | Inr exam \<Rightarrow>
                  (case py_int py g2 of
                     Inl e \<Rightarrow> Inl e
                   | Inr student \<Rightarrow>
                       (case read_registrations py f of
                          Inl e \<Rightarrow> Inl e
                        | Inr regs \<Rightarrow> Inr ((exam, student) # regs))))))"

text \<open>Lines 25 to 43: the instance before the students of each exam are counted.\<close>

definition parse_file :: "python \<Rightarrow> str list \<Rightarrow> error + Instance" where
  "parse_file py f0 =
     (case read_attribute py (ascii ''Number of students'') f0 of
        Inl e \<Rightarrow> Inl e
      | Inr (students, f1) \<Rightarrow>
     (case read_attribute py (ascii ''Number of exams'') f1 of
        Inl e \<Rightarrow> Inl e
      | Inr (exams, f2) \<Rightarrow>
     (case read_attribute py (ascii ''Number of slots'') f2 of
        Inl e \<Rightarrow> Inl e
      | Inr (slots, f3) \<Rightarrow>
     (case read_attribute py (ascii ''Number of rooms'') f3 of
        Inl e \<Rightarrow> Inl e
      | Inr (rooms, f4) \<Rightarrow>
     (case read_rooms py (py_range rooms) f4 of
        Inl e \<Rightarrow> Inl e
      | Inr (capacities, f5) \<Rightarrow>
     (case read_registrations py f5 of
        Inl e \<Rightarrow> Inl e
      | Inr regs \<Rightarrow>
          Inr \<lparr>number_of_students = students, number_of_exams = exams,
               number_of_slots = slots, number_of_rooms = rooms,
               room_capacities = capacities, exams_to_students = regs,
               student_exam_capacity = []\<rparr>))))))"

text \<open>
  Line 45, \<open>[0] * n\<close>: \<open>OverflowError\<close> when \<open>n\<close> is no length a list can have,
  \<open>MemoryError\<close> when the memory for the list is not there; a negative \<open>n\<close> gives the empty
  list.
\<close>

definition py_zeros :: "python \<Rightarrow> int \<Rightarrow> error + int list" where
  "py_zeros py n =
     (if maxsize py < n \<or> n < - maxsize py - 1 then Inl OverflowError
      else if \<not> allocates py n then Inl MemoryError
      else Inr (replicate (nat n) 0))"

text \<open>Lines 46 and 47: \<open>xs[i] += 1\<close> and the loop over the registrations.\<close>

definition py_increment :: "int list \<Rightarrow> int \<Rightarrow> error + int list" where
  "py_increment xs i =
     (case py_position (length xs) i of
        Inl e \<Rightarrow> Inl e
      | Inr k \<Rightarrow> Inr (xs[k := xs ! k + 1]))"

fun count_students :: "int list \<Rightarrow> (int \<times> int) list \<Rightarrow> error + int list" where
  "count_students counts [] = Inr counts"
| "count_students counts ((exam, student) # rest) =
     (case py_increment counts exam of
        Inl e \<Rightarrow> Inl e
      | Inr counts' \<Rightarrow> count_students counts' rest)"

definition count_registrations :: "python \<Rightarrow> Instance \<Rightarrow> error + Instance" where
  "count_registrations py inst =
     (case py_zeros py (number_of_exams inst) of
        Inl e \<Rightarrow> Inl e
      | Inr zeros \<Rightarrow>
          (case count_students zeros (exams_to_students inst) of
             Inl e \<Rightarrow> Inl e
           | Inr counts \<Rightarrow> Inr (inst\<lparr>student_exam_capacity := counts\<rparr>)))"

definition read_file :: "python \<Rightarrow> str list \<Rightarrow> error + Instance" where
  "read_file py f =
     (case parse_file py f of Inl e \<Rightarrow> Inl e | Inr inst \<Rightarrow> count_registrations py inst)"

subsection \<open>The solver's vocabulary\<close>

text \<open>
  An interpretation of the seven uninterpreted functions that \<open>solve\<close> declares. The integer
  constants \<open>exam\<close>, \<open>room\<close>, \<open>timeslot\<close>, \<open>next_exam\<close>, \<open>next_timeslot\<close> and \<open>student\<close> occur
  bound only, so they are the bound variables of the formulas below.
\<close>

record z3_model =
  Student_Range :: "int \<Rightarrow> bool"
  Exam_Range :: "int \<Rightarrow> bool"
  Room_Range :: "int \<Rightarrow> bool"
  TimeSlot_Range :: "int \<Rightarrow> bool"
  ExamRoom :: "int \<Rightarrow> int"
  ExamTime :: "int \<Rightarrow> int"
  ExamStudent :: "int \<Rightarrow> int \<Rightarrow> bool"

type_synonym formula = "z3_model \<Rightarrow> bool"

datatype check_result = sat z3_model | unsat | unknown

text \<open>
  What Z3 promises of an answer to \<open>s.check()\<close> on the assertions \<open>cs\<close>: a model that comes
  with \<open>sat\<close> satisfies every assertion, and \<open>unsat\<close> is given only when no interpretation
  does. Nothing is promised of \<open>unknown\<close>.
\<close>

definition models :: "z3_model \<Rightarrow> formula list \<Rightarrow> bool" where
  "models m cs = list_all (\<lambda>f. f m) cs"

definition z3_answer_ok :: "formula list \<Rightarrow> check_result \<Rightarrow> bool" where
  "z3_answer_ok cs r =
     (case r of sat m \<Rightarrow> models m cs | unsat \<Rightarrow> (\<nexists>m. models m cs) | unknown \<Rightarrow> True)"

subsection \<open>The assertions of \<open>solve\<close>\<close>

text \<open>Lines 69 to 72: the four range predicates.\<close>

definition range_constraints :: "Instance \<Rightarrow> formula list" where
  "range_constraints inst =
     [\<lambda>m. \<forall>student. Student_Range m student =
              (student \<ge> 0 \<and> student < number_of_students inst),
      \<lambda>m. \<forall>exam. Exam_Range m exam = (exam \<ge> 0 \<and> exam < number_of_exams inst),
      \<lambda>m. \<forall>timeslot. TimeSlot_Range m timeslot =
              (timeslot \<ge> 0 \<and> timeslot < number_of_slots inst),
      \<lambda>m. \<forall>room. Room_Range m room = (room \<ge> 0 \<and> room < number_of_rooms inst)]"

text \<open>Lines 80 and 81: one fact for every registration, in the order of the list.\<close>

definition student_facts :: "Instance \<Rightarrow> formula list" where
  "student_facts inst =
     map (\<lambda>(exam_id, student_id). \<lambda>m. ExamStudent m exam_id student_id)
       (exams_to_students inst)"

text \<open>Lines 85 to 110: every exam has a room and a slot that no other exam has.\<close>

definition assignment_constraint :: formula where
  "assignment_constraint m =
     (\<forall>exam. Exam_Range m exam \<longrightarrow>
        (\<exists>room timeslot.
           Room_Range m room \<and> TimeSlot_Range m timeslot \<and>
           ExamTime m exam = timeslot \<and> ExamRoom m exam = room \<and>
           \<not> (\<exists>next_exam. Exam_Range m next_exam \<and>
                 (ExamRoom m next_exam = room \<and> ExamTime m next_exam = timeslot \<and>
                  exam \<noteq> next_exam))))"

text \<open>
  Lines 113 to 115. The comparison of the two list entries is made by Python, so each
  formula is an implication whose conclusion is a constant; an index out of range raises
  before anything is asserted for that pair.
\<close>

definition capacity_constraint :: "Instance \<Rightarrow> int \<Rightarrow> int \<Rightarrow> error + formula" where
  "capacity_constraint inst ex rm =
     (case py_index (student_exam_capacity inst) ex of
        Inl e \<Rightarrow> Inl e
      | Inr students \<Rightarrow>
          (case py_index (room_capacities inst) rm of
             Inl e \<Rightarrow> Inl e
           | Inr capacity \<Rightarrow> Inr (\<lambda>m. ExamRoom m ex = rm \<longrightarrow> students \<le> capacity)))"

definition capacity_constraints :: "Instance \<Rightarrow> error + formula list" where
  "capacity_constraints inst =
     raise_first
       (concat (map (\<lambda>ex. map (\<lambda>rm. capacity_constraint inst ex rm)
                             (py_range (number_of_rooms inst)))
                    (py_range (number_of_exams inst))))"

text \<open>Lines 118 to 140: two exams of one student are neither in the same nor in adjacent slots.\<close>

definition separation_constraint :: formula where
  "separation_constraint m =
     (\<forall>student exam next_exam timeslot next_timeslot.
        (Student_Range m student \<and> Exam_Range m exam \<and> Exam_Range m next_exam \<and>
         TimeSlot_Range m timeslot \<and> TimeSlot_Range m next_timeslot \<and>
         exam \<noteq> next_exam) \<longrightarrow>
        ((ExamTime m exam = timeslot \<and> ExamTime m next_exam = next_timeslot \<and>
          ExamStudent m exam student \<and> ExamStudent m next_exam student) \<longrightarrow>
         (timeslot + 1 \<noteq> next_timeslot \<and> timeslot - 1 \<noteq> next_timeslot \<and>
          timeslot \<noteq> next_timeslot)))"

text \<open>The assertions in the order \<open>solve\<close> adds them to the solver.\<close>

definition constraints :: "Instance \<Rightarrow> error + formula list" where
  "constraints inst =
     (case capacity_constraints inst of
        Inl e \<Rightarrow> Inl e
      | Inr caps \<Rightarrow>
          Inr (range_constraints inst @ student_facts inst @ [assignment_constraint] @
               caps @ [separation_constraint]))"

subsection \<open>What \<open>solve\<close> prints\<close>

text \<open>
  The printed text as data: a row \<open>(exam, room, slot, students)\<close> for every exam, a line for
  every student, and the students of the warning (none when no warning is printed).
\<close>

datatype student_line = Timetable int "(int \<times> int \<times> int) list" | NotScheduled int

datatype report =
  Satisfied "(int \<times> int \<times> int \<times> int) list" "student_line list" "int list"
| Unsatisfied

definition exam_row :: "Instance \<Rightarrow> z3_model \<Rightarrow> int \<Rightarrow> error + (int \<times> int \<times> int \<times> int)" where
  "exam_row inst m ex =
     (case py_index (student_exam_capacity inst) ex of
        Inl e \<Rightarrow> Inl e
      | Inr students_count \<Rightarrow> Inr (ex, ExamRoom m ex, ExamTime m ex, students_count))"

definition exam_rows :: "Instance \<Rightarrow> z3_model \<Rightarrow> error + (int \<times> int \<times> int \<times> int) list" where
  "exam_rows inst m = raise_first (map (exam_row inst m) (py_range (number_of_exams inst)))"

definition exams_for_student :: "Instance \<Rightarrow> z3_model \<Rightarrow> int \<Rightarrow> (int \<times> int \<times> int) list" where
  "exams_for_student inst m student_id =
     map (\<lambda>(exam, stud). (exam, ExamTime m exam, ExamRoom m exam))
       (filter (\<lambda>(exam, stud). stud = student_id) (exams_to_students inst))"

definition student_lines :: "Instance \<Rightarrow> z3_model \<Rightarrow> student_line list" where
  "student_lines inst m =
     map (\<lambda>student_id.
            if exams_for_student inst m student_id \<noteq> []
            then Timetable student_id (exams_for_student inst m student_id)
            else NotScheduled student_id)
       (py_range (number_of_students inst))"

definition students_with_many_exams :: "Instance \<Rightarrow> z3_model \<Rightarrow> int list" where
  "students_with_many_exams inst m =
     filter (\<lambda>student_id.
               exams_for_student inst m student_id \<noteq> [] \<and>
               length (exams_for_student inst m student_id) > 3)
       (py_range (number_of_students inst))"

text \<open>
  \<open>solve\<close>, with the answer of \<open>s.check()\<close> as its second argument. Anything but \<open>sat\<close> goes to
  the \<open>else\<close> branch of line 181.
\<close>

definition solve :: "Instance \<Rightarrow> check_result \<Rightarrow> error + report" where
  "solve inst r =
     (case constraints inst of
        Inl e \<Rightarrow> Inl e
      | Inr cs \<Rightarrow>
          (case r of
             sat m \<Rightarrow>
               (case exam_rows inst m of
                  Inl e \<Rightarrow> Inl e
                | Inr rows \<Rightarrow>
                    Inr (Satisfied rows (student_lines inst m)
                           (students_with_many_exams inst m)))
           | unsat \<Rightarrow> Inr Unsatisfied
           | unknown \<Rightarrow> Inr Unsatisfied))"

text \<open>
  \<open>solve\<close> reaches \<open>s.check()\<close> on the instance (no index was out of range while the
  assertions were built) and \<open>r\<close> is an answer Z3 may give there.
\<close>

definition check_answer :: "Instance \<Rightarrow> check_result \<Rightarrow> bool" where
  "check_answer inst r =
     (case constraints inst of Inl e \<Rightarrow> False | Inr cs \<Rightarrow> z3_answer_ok cs r)"

subsection \<open>The four constraint families of the specification\<close>

text \<open>
  Following the words of the specification. A timetable is the room and the slot of
  every exam, an exam being a number from \<open>0\<close> below \<open>number_of_exams\<close>. The number of
  students of an exam
  (\<open>studentCount\<close>, section 3) is the number of students registered for it, so a student
  registered twice is one student; \<open>registration_lines\<close>, for comparison, is the number of
  registrations of the exam in the list. Two exams share a student when some student is
  registered for both (section 4.2), whatever the number of the student is. The four
  families: every exam has a room and a slot of the instance; the students of an exam
  are at most the capacity of its room; no two exams have the same room and slot; two
  exams that share a student are more than one slot apart.
\<close>

definition studentCount :: "Instance \<Rightarrow> int \<Rightarrow> int" where
  "studentCount inst e =
     int (length (remdups (map snd
       (filter (\<lambda>(exam, student). exam = e) (exams_to_students inst)))))"

definition registration_lines :: "Instance \<Rightarrow> int \<Rightarrow> int" where
  "registration_lines inst e =
     int (length (filter (\<lambda>(exam, student). exam = e) (exams_to_students inst)))"

definition spec_total_assignment :: "Instance \<Rightarrow> (int \<Rightarrow> int) \<Rightarrow> (int \<Rightarrow> int) \<Rightarrow> bool" where
  "spec_total_assignment inst room time =
     (\<forall>e \<in> set (py_range (number_of_exams inst)).
        0 \<le> room e \<and> room e < number_of_rooms inst \<and>
        0 \<le> time e \<and> time e < number_of_slots inst)"

definition spec_room_capacity :: "Instance \<Rightarrow> (int \<Rightarrow> int) \<Rightarrow> bool" where
  "spec_room_capacity inst room =
     (\<forall>e \<in> set (py_range (number_of_exams inst)).
        0 \<le> room e \<and> room e < int (length (room_capacities inst)) \<and>
        studentCount inst e \<le> room_capacities inst ! nat (room e))"

definition spec_no_double_booking :: "Instance \<Rightarrow> (int \<Rightarrow> int) \<Rightarrow> (int \<Rightarrow> int) \<Rightarrow> bool" where
  "spec_no_double_booking inst room time =
     (\<forall>e1 \<in> set (py_range (number_of_exams inst)).
      \<forall>e2 \<in> set (py_range (number_of_exams inst)).
        e1 \<noteq> e2 \<longrightarrow> \<not> (room e1 = room e2 \<and> time e1 = time e2))"

definition share_student :: "Instance \<Rightarrow> int \<Rightarrow> int \<Rightarrow> bool" where
  "share_student inst e1 e2 =
     (\<exists>(e, s) \<in> set (exams_to_students inst).
        e = e1 \<and> (e2, s) \<in> set (exams_to_students inst))"

definition spec_student_separation :: "Instance \<Rightarrow> (int \<Rightarrow> int) \<Rightarrow> bool" where
  "spec_student_separation inst time =
     (\<forall>e1 \<in> set (py_range (number_of_exams inst)).
      \<forall>e2 \<in> set (py_range (number_of_exams inst)).
        e1 \<noteq> e2 \<and> share_student inst e1 e2 \<longrightarrow> \<bar>time e1 - time e2\<bar> > 1)"

definition spec_solution :: "Instance \<Rightarrow> (int \<Rightarrow> int) \<Rightarrow> (int \<Rightarrow> int) \<Rightarrow> bool" where
  "spec_solution inst room time =
     (spec_total_assignment inst room time \<and> spec_room_capacity inst room \<and>
      spec_no_double_booking inst room time \<and> spec_student_separation inst time)"

text \<open>
  Following the specification (sections 3 and 6), a valid instance: no count is negative,
  the two tables have the declared lengths, and every registration names an exam and a
  student of the instance.
\<close>

definition valid_instance :: "Instance \<Rightarrow> bool" where
  "valid_instance inst =
     (0 \<le> number_of_students inst \<and> 0 \<le> number_of_exams inst \<and>
      0 \<le> number_of_slots inst \<and> 0 \<le> number_of_rooms inst \<and>
      int (length (room_capacities inst)) = number_of_rooms inst \<and>
      int (length (student_exam_capacity inst)) = number_of_exams inst \<and>
      (\<forall>(e, s) \<in> set (exams_to_students inst).
         0 \<le> e \<and> e < number_of_exams inst \<and> 0 \<le> s \<and> s < number_of_students inst))"

subsection \<open>What the assertions say of a timetable\<close>

text \<open>
  The assertions of \<open>solve\<close> say four things of a timetable. Every exam has a room and a
  slot of the instance, and no two exams have the same room and slot (lines 85 to 110):
  the first and the third family. The comparison of line 115 holds for every exam and
  its room: it is made on the entry of \<open>student_exam_capacity\<close>, which counts the
  registrations of the exam as they are listed. Two exams with a common student whose
  number passes the guard \<open>Student_Range\<close> of line 122, so a number from \<open>0\<close> below
  \<open>number_of_students\<close>, are more than one slot apart; a registration of any other number
  keeps no two exams apart.
\<close>

definition room_fits :: "Instance \<Rightarrow> int \<Rightarrow> int \<Rightarrow> bool" where
  "room_fits inst e r =
     (case py_index (student_exam_capacity inst) e of
        Inl _ \<Rightarrow> False
      | Inr students \<Rightarrow>
          (case py_index (room_capacities inst) r of
             Inl _ \<Rightarrow> False
           | Inr capacity \<Rightarrow> students \<le> capacity))"

definition asserted_room_capacity :: "Instance \<Rightarrow> (int \<Rightarrow> int) \<Rightarrow> bool" where
  "asserted_room_capacity inst room =
     (\<forall>e \<in> set (py_range (number_of_exams inst)). room_fits inst e (room e))"

definition share_student_in_range :: "Instance \<Rightarrow> int \<Rightarrow> int \<Rightarrow> bool" where
  "share_student_in_range inst e1 e2 =
     (\<exists>(e, s) \<in> set (exams_to_students inst).
        e = e1 \<and> 0 \<le> s \<and> s < number_of_students inst \<and>
        (e2, s) \<in> set (exams_to_students inst))"

definition asserted_student_separation :: "Instance \<Rightarrow> (int \<Rightarrow> int) \<Rightarrow> bool" where
  "asserted_student_separation inst time =
     (\<forall>e1 \<in> set (py_range (number_of_exams inst)).
      \<forall>e2 \<in> set (py_range (number_of_exams inst)).
        e1 \<noteq> e2 \<and> share_student_in_range inst e1 e2 \<longrightarrow> \<bar>time e1 - time e2\<bar> > 1)"

definition asserted_solution :: "Instance \<Rightarrow> (int \<Rightarrow> int) \<Rightarrow> (int \<Rightarrow> int) \<Rightarrow> bool" where
  "asserted_solution inst room time =
     (spec_total_assignment inst room time \<and> asserted_room_capacity inst room \<and>
      spec_no_double_booking inst room time \<and> asserted_student_separation inst time)"

text \<open>
  The capacity assertions alone, as \<open>solve\<close> makes them: the assertions of lines 113 to 115
  are built and hold of the interpretation.
\<close>

definition capacity_family :: "Instance \<Rightarrow> z3_model \<Rightarrow> bool" where
  "capacity_family inst m =
     (case capacity_constraints inst of Inl e \<Rightarrow> False | Inr caps \<Rightarrow> models m caps)"

text \<open>
  The interpretation that goes with a timetable: the range predicates as lines 69 to 72
  define them, and \<open>ExamStudent\<close> true of the registrations and of nothing else.
\<close>

definition model_of :: "Instance \<Rightarrow> (int \<Rightarrow> int) \<Rightarrow> (int \<Rightarrow> int) \<Rightarrow> z3_model" where
  "model_of inst room time =
     \<lparr>Student_Range = (\<lambda>s. 0 \<le> s \<and> s < number_of_students inst),
      Exam_Range = (\<lambda>e. 0 \<le> e \<and> e < number_of_exams inst),
      Room_Range = (\<lambda>r. 0 \<le> r \<and> r < number_of_rooms inst),
      TimeSlot_Range = (\<lambda>t. 0 \<le> t \<and> t < number_of_slots inst),
      ExamRoom = room, ExamTime = time,
      ExamStudent = (\<lambda>e s. (e, s) \<in> set (exams_to_students inst))\<rparr>"

subsection \<open>Instances used as examples\<close>

text \<open>
  A Python to read the examples with: CPython on a 64-bit machine with the limit of 4300
  digits, where a list of more than \<open>maxsize div 8\<close> entries is more than can be addressed.
  Its two character tables are cut to ASCII, which is all the example files have: there
  the whitespace characters are the space and the code points 9 to 13 and 28 to 31, and
  the decimal digits are the code points 48 to 57.
\<close>

definition ascii_isspace :: "int \<Rightarrow> bool" where
  "ascii_isspace c = (c \<in> set [9, 10, 11, 12, 13, 28, 29, 30, 31, 32])"

definition ascii_decimal :: "int \<Rightarrow> nat option" where
  "ascii_decimal c = (if 48 \<le> c \<and> c \<le> 57 then Some (nat (c - 48)) else None)"

definition cpython64 :: python where
  "cpython64 =
     \<lparr>isspace = ascii_isspace, decimal = ascii_decimal, int_max_str_digits = 4300,
      maxsize = 9223372036854775807,
      allocates = (\<lambda>n. n \<le> 9223372036854775807 div 8)\<rparr>"

text \<open>
  Each file is given as the lines \<open>readline\<close> returns, with the instance \<open>read_file\<close> makes of
  it. The first is the scenario of the specification (section 8): three exams, one room
  of capacity 100, three slots, student 0 in exams 0 and 1, student 1 in exam 2. Its
  timetable puts exams 0 and 1 in slots 0 and 2 and exam 2 in slot 1; \<open>adjacent_time\<close>
  puts exam \<open>e\<close> in slot \<open>e\<close>, so exams 0 and 1 in adjacent slots.
\<close>

definition scenario_file :: "str list" where
  "scenario_file =
     map ascii
       [''Number of students: 2\<newline>'', ''Number of exams: 3\<newline>'',
        ''Number of slots: 3\<newline>'', ''Number of rooms: 1\<newline>'',
        ''Room 0 capacity: 100\<newline>'', ''0 0\<newline>'', ''1 0\<newline>'', ''2 1\<newline>'']"

definition scenario_instance :: Instance where
  "scenario_instance =
     \<lparr>number_of_students = 2, number_of_exams = 3, number_of_slots = 3,
      number_of_rooms = 1, room_capacities = [100],
      exams_to_students = [(0, 0), (1, 0), (2, 1)], student_exam_capacity = [1, 1, 1]\<rparr>"

definition scenario_room :: "int \<Rightarrow> int" where
  "scenario_room e = 0"

definition scenario_time :: "int \<Rightarrow> int" where
  "scenario_time e = (if e = 0 then 0 else if e = 1 then 2 else 1)"

definition scenario_model :: z3_model where
  "scenario_model = model_of scenario_instance scenario_room scenario_time"

definition adjacent_time :: "int \<Rightarrow> int" where
  "adjacent_time e = e"

text \<open>A second timetable of the scenario: exams 0 and 1 in slots 2 and 0.\<close>

definition mirror_time :: "int \<Rightarrow> int" where
  "mirror_time e = (if e = 0 then 2 else if e = 1 then 0 else 1)"

definition mirror_model :: z3_model where
  "mirror_model = model_of scenario_instance scenario_room mirror_time"

text \<open>One room, one slot and two exams with different students.\<close>

definition pigeonhole_file :: "str list" where
  "pigeonhole_file =
     map ascii
       [''Number of students: 2\<newline>'', ''Number of exams: 2\<newline>'',
        ''Number of slots: 1\<newline>'', ''Number of rooms: 1\<newline>'',
        ''Room 0 capacity: 10\<newline>'', ''0 0\<newline>'', ''1 1\<newline>'']"

definition pigeonhole_instance :: Instance where
  "pigeonhole_instance =
     \<lparr>number_of_students = 2, number_of_exams = 2, number_of_slots = 1,
      number_of_rooms = 1, room_capacities = [10],
      exams_to_students = [(0, 0), (1, 1)], student_exam_capacity = [1, 1]\<rparr>"




text \<open>
  One exam whose only student fills the only room, and the same file with the
  registration written twice.
\<close>

definition full_room_file :: "str list" where
  "full_room_file =
     map ascii
       [''Number of students: 1\<newline>'', ''Number of exams: 1\<newline>'',
        ''Number of slots: 1\<newline>'', ''Number of rooms: 1\<newline>'',
        ''Room 0 capacity: 1\<newline>'', ''0 0\<newline>'']"

definition full_room_instance :: Instance where
  "full_room_instance =
     \<lparr>number_of_students = 1, number_of_exams = 1, number_of_slots = 1,
      number_of_rooms = 1, room_capacities = [1],
      exams_to_students = [(0, 0)], student_exam_capacity = [1]\<rparr>"

definition full_room_model :: z3_model where
  "full_room_model = model_of full_room_instance (\<lambda>e. 0) (\<lambda>e. 0)"

definition duplicate_file :: "str list" where
  "duplicate_file =
     map ascii
       [''Number of students: 1\<newline>'', ''Number of exams: 1\<newline>'',
        ''Number of slots: 1\<newline>'', ''Number of rooms: 1\<newline>'',
        ''Room 0 capacity: 1\<newline>'', ''0 0\<newline>'', ''0 0\<newline>'']"

definition duplicate_instance :: Instance where
  "duplicate_instance =
     \<lparr>number_of_students = 1, number_of_exams = 1, number_of_slots = 1,
      number_of_rooms = 1, room_capacities = [1],
      exams_to_students = [(0, 0), (0, 0)], student_exam_capacity = [2]\<rparr>"

text \<open>
  Three files that name what the instance does not have: a registration for exam 2 of
  two exams; a negative number of students; two registrations of student 1 where the only
  student is student 0.
\<close>

definition stray_exam_file :: "str list" where
  "stray_exam_file =
     map ascii
       [''Number of students: 1\<newline>'', ''Number of exams: 2\<newline>'',
        ''Number of slots: 2\<newline>'', ''Number of rooms: 1\<newline>'',
        ''Room 0 capacity: 5\<newline>'', ''0 0\<newline>'', ''2 0\<newline>'']"

definition stray_exam_parsed :: Instance where
  "stray_exam_parsed =
     \<lparr>number_of_students = 1, number_of_exams = 2, number_of_slots = 2,
      number_of_rooms = 1, room_capacities = [5],
      exams_to_students = [(0, 0), (2, 0)], student_exam_capacity = []\<rparr>"

definition negative_count_file :: "str list" where
  "negative_count_file =
     map ascii
       [''Number of students: -1\<newline>'', ''Number of exams: 2\<newline>'',
        ''Number of slots: 2\<newline>'', ''Number of rooms: 1\<newline>'',
        ''Room 0 capacity: 5\<newline>'']"

text \<open>
  Three files with a number Python does not take: a number of students of 4301 digits;
  a number of exams of \<open>maxsize + 1\<close>; a number of exams of \<open>maxsize div 8 + 1\<close>.
\<close>

definition long_number_file :: "str list" where
  "long_number_file =
     [ascii ''Number of students: '' @ replicate 4301 49 @ ascii ''\<newline>'']"

definition huge_count_file :: "str list" where
  "huge_count_file =
     map ascii
       [''Number of students: 1\<newline>'', ''Number of exams: 9223372036854775808\<newline>'',
        ''Number of slots: 2\<newline>'', ''Number of rooms: 1\<newline>'',
        ''Room 0 capacity: 5\<newline>'']"

definition large_count_file :: "str list" where
  "large_count_file =
     map ascii
       [''Number of students: 1\<newline>'', ''Number of exams: 1152921504606846976\<newline>'',
        ''Number of slots: 2\<newline>'', ''Number of rooms: 1\<newline>'',
        ''Room 0 capacity: 5\<newline>'']"

definition stranger_file :: "str list" where
  "stranger_file =
     map ascii
       [''Number of students: 1\<newline>'', ''Number of exams: 2\<newline>'',
        ''Number of slots: 2\<newline>'', ''Number of rooms: 1\<newline>'',
        ''Room 0 capacity: 5\<newline>'', ''0 1\<newline>'', ''1 1\<newline>'']"

definition stranger_instance :: Instance where
  "stranger_instance =
     \<lparr>number_of_students = 1, number_of_exams = 2, number_of_slots = 2,
      number_of_rooms = 1, room_capacities = [5],
      exams_to_students = [(0, 1), (1, 1)], student_exam_capacity = [1, 1]\<rparr>"

definition stranger_model :: z3_model where
  "stranger_model = model_of stranger_instance scenario_room adjacent_time"

section \<open>Properties of the functions\<close>

subsection \<open>Ranges, indices and sequences of steps\<close>

lemma in_py_range: "e \<in> set (py_range n) \<longleftrightarrow> 0 \<le> e \<and> e < n"
  by (auto simp: py_range_def)

lemma length_py_range: "length (py_range n) = nat n"
  by (simp add: py_range_def)

lemma py_index_in_range:
  "0 \<le> i \<Longrightarrow> i < int (length xs) \<Longrightarrow> py_index xs i = Inr (xs ! nat i)"
  by (simp add: py_index_def py_position_def)

lemma py_position_less:
  "py_position n i = Inr k \<Longrightarrow> k < n"
  by (auto simp: py_position_def split: if_splits)

lemma py_position_error:
  "py_position n i = Inl e \<Longrightarrow> e = IndexError"
  by (auto simp: py_position_def split: if_splits)

lemma py_position_nonneg:
  "0 \<le> i \<Longrightarrow> py_position n i = (if i < int n then Inr (nat i) else Inl IndexError)"
  by (simp add: py_position_def)

lemma py_increment_length:
  "py_increment xs i = Inr ys \<Longrightarrow> length ys = length xs"
  by (auto simp: py_increment_def split: sum.splits)

lemma py_increment_Inr_iff:
  "py_increment xs i = Inr ys \<longleftrightarrow>
     (\<exists>k. py_position (length xs) i = Inr k \<and> ys = xs[k := xs ! k + 1])"
  by (auto simp: py_increment_def split: sum.splits)

lemma py_increment_commute:
  assumes "py_increment c e = Inr c1" and "py_increment c e' = Inr c2"
  shows "\<exists>c3. py_increment c1 e' = Inr c3 \<and> py_increment c2 e = Inr c3"
proof -
  obtain k where k: "py_position (length c) e = Inr k" "c1 = c[k := c ! k + 1]"
    using assms(1) unfolding py_increment_Inr_iff by blast
  obtain k' where k': "py_position (length c) e' = Inr k'" "c2 = c[k' := c ! k' + 1]"
    using assms(2) unfolding py_increment_Inr_iff by blast
  have lt: "k < length c" "k' < length c"
    using k(1) k'(1) py_position_less by blast+
  have "c1[k' := c1 ! k' + 1] = c2[k := c2 ! k + 1]"
    unfolding k(2) k'(2) using lt
    by (cases "k = k'") (simp_all add: list_update_swap)
  then show ?thesis
    unfolding py_increment_Inr_iff using k k' by simp
qed

lemma raise_first_map_Inr: "raise_first (map Inr ys) = Inr ys"
  by (induction ys) auto

lemma raise_first_Inr_D: "raise_first xs = Inr ys \<Longrightarrow> xs = map Inr ys"
proof (induction xs arbitrary: ys)
  case Nil
  then show ?case by auto
next
  case (Cons x xs)
  then show ?case by (cases x) (auto split: sum.splits)
qed

lemma raise_first_Inr_iff: "raise_first xs = Inr ys \<longleftrightarrow> xs = map Inr ys"
  using raise_first_map_Inr raise_first_Inr_D by blast

lemma raise_first_all_Inr:
  "(\<forall>x \<in> set xs. \<exists>y. x = Inr y) \<Longrightarrow> \<exists>ys. raise_first xs = Inr ys"
proof (induction xs)
  case Nil
  then show ?case by simp
next
  case (Cons x xs)
  then show ?case by (cases x) auto
qed

lemma bind_Inr_iff:
  "(case x of Inl e \<Rightarrow> Inl e | Inr v \<Rightarrow> g v) = Inr y \<longleftrightarrow> (\<exists>v. x = Inr v \<and> g v = Inr y)"
  by (cases x) auto

lemma bind_Inl_iff:
  "(case x of Inl e \<Rightarrow> Inl e | Inr v \<Rightarrow> g v) = Inl e \<longleftrightarrow>
     x = Inl e \<or> (\<exists>v. x = Inr v \<and> g v = Inl e)"
  by (cases x) auto

subsection \<open>Reading a file\<close>

text \<open>
  The parser reads unsigned numbers only: every number it returns is at least \<open>0\<close>. It
  raises the generic exception for a line that does not match, and \<open>ValueError\<close> for a
  number with more digits than \<open>int\<close> takes, which needs a Python that has such a limit.
\<close>

lemma digit_value_nonneg: "0 \<le> digit_value py c"
  by (simp add: digit_value_def split: option.splits)

lemma foldl_digits_nonneg:
  "0 \<le> n \<Longrightarrow> 0 \<le> foldl (\<lambda>n c. 10 * n + digit_value py c) n ds"
proof (induction ds arbitrary: n)
  case Nil
  then show ?case by simp
next
  case (Cons c ds)
  have "0 \<le> 10 * n + digit_value py c"
    using Cons.prems digit_value_nonneg [of py c] by simp
  then show ?case
    using Cons.IH [of "10 * n + digit_value py c"] by simp
qed

lemma py_int_nonneg: "py_int py ds = Inr v \<Longrightarrow> 0 \<le> v"
  using foldl_digits_nonneg [of 0 py ds] by (auto simp: py_int_def split: if_splits)

lemma py_int_error:
  "py_int py ds = Inl e \<Longrightarrow>
     e = ValueError \<and> 0 < int_max_str_digits py \<and> int_max_str_digits py < int (length ds)"
  by (auto simp: py_int_def split: if_splits)

text \<open>A line with a name, a colon, a space and a number is matched, and gives the number.\<close>

lemma re_attribute_number:
  assumes ds: "\<forall>c \<in> set ds. is_digit py c \<and> \<not> is_space py c" and ne: "ds \<noteq> []"
    and nl: "\<not> is_digit py 10" and sp: "is_space py 32"
  shows "re_attribute py name (name @ ascii '': '' @ ds @ ascii ''\<newline>'') = Some ds"
proof -
  have a: "ascii '': '' = ascii '':'' @ [32]" "ascii ''\<newline>'' = [10]"
    by (simp_all add: ascii_def)
  have t: "takeWhile (is_digit py) (ds @ [10]) = ds"
    using ds nl by (subst takeWhile_append2) simp_all
  have d: "dropWhile (is_digit py) (ds @ [10]) = [10]"
    using ds nl by (subst dropWhile_append2) simp_all
  have "\<not> is_space py (hd (ds @ [10]))"
    using ds ne by (cases ds) simp_all
  then have s: "dropWhile (is_space py) (ds @ [10]) = ds @ [10]"
    using ne by (cases ds) simp_all
  have "re_attribute py name ((name @ ascii '':'') @ 32 # ds @ [10]) = Some ds"
    unfolding re_attribute_def Let_def
    by (simp add: s t d ne sp del: append_assoc)
  then show ?thesis
    by (simp add: a)
qed

lemma read_attribute_Inr_iff:
  "read_attribute py name f = Inr (v, f') \<longleftrightarrow>
     (\<exists>g. re_attribute py name (fst (readline f)) = Some g \<and> py_int py g = Inr v \<and>
          f' = snd (readline f))"
  by (cases "readline f"; cases "re_attribute py name (fst (readline f))")
     (auto simp: read_attribute_def bind_Inr_iff)

lemma read_attribute_nonneg:
  assumes "read_attribute py name f = Inr (v, f')"
  shows "0 \<le> v"
proof -
  obtain g where "py_int py g = Inr v"
    using assms unfolding read_attribute_Inr_iff by blast
  then show ?thesis
    by (rule py_int_nonneg)
qed

lemma read_attribute_error:
  assumes "read_attribute py name f = Inl e"
  shows "e = Exception \<or> e = ValueError \<and> 0 < int_max_str_digits py"
proof (cases "re_attribute py name (fst (readline f))")
  case None
  then show ?thesis
    using assms by (cases "readline f") (simp add: read_attribute_def)
next
  case (Some g)
  then have "py_int py g = Inl e"
    using assms by (cases "readline f"; cases "py_int py g") (simp_all add: read_attribute_def)
  then show ?thesis
    using py_int_error by blast
qed

lemma read_rooms_error:
  "read_rooms py rs f = Inl e \<Longrightarrow> e = Exception \<or> e = ValueError \<and> 0 < int_max_str_digits py"
proof (induction rs arbitrary: f)
  case Nil
  then show ?case by simp
next
  case (Cons r rs)
  from Cons.prems show ?case
    by (auto dest: read_attribute_error Cons.IH simp: bind_Inl_iff)
qed

lemma read_rooms_result:
  "read_rooms py rs f = Inr (cs, f') \<Longrightarrow> length cs = length rs \<and> (\<forall>c \<in> set cs. 0 \<le> c)"
proof (induction rs arbitrary: f cs f')
  case Nil
  then show ?case by simp
next
  case (Cons r rs)
  from Cons.prems obtain c f1 cs1 where
    c: "read_attribute py (ascii ''Room '' @ py_str r @ ascii '' capacity'') f = Inr (c, f1)"
    and rest: "read_rooms py rs f1 = Inr (cs1, f')" and cs: "cs = c # cs1"
    by (auto simp: bind_Inr_iff)
  show ?case
    using Cons.IH [OF rest] read_attribute_nonneg [OF c] cs by simp
qed

lemma read_registrations_Cons:
  "l \<noteq> [] \<Longrightarrow> read_registrations py (l # f) =
     (case re_registration py l of
        None \<Rightarrow> Inl Exception
      | Some (g1, g2) \<Rightarrow>
          (case py_int py g1 of
             Inl e \<Rightarrow> Inl e
           | Inr exam \<Rightarrow>
               (case py_int py g2 of
                  Inl e \<Rightarrow> Inl e
                | Inr student \<Rightarrow>
                    (case read_registrations py f of
                       Inl e \<Rightarrow> Inl e
                     | Inr regs \<Rightarrow> Inr ((exam, student) # regs)))))"
  by simp

lemma read_registrations_Cons_Inr:
  assumes "l \<noteq> []" and "read_registrations py (l # f) = Inr regs"
  shows "\<exists>g1 g2 exam student rest.
           py_int py g1 = Inr exam \<and> py_int py g2 = Inr student \<and>
           read_registrations py f = Inr rest \<and> regs = (exam, student) # rest"
proof (cases "re_registration py l")
  case None
  then show ?thesis
    using assms(2) unfolding read_registrations_Cons [OF assms(1)] by simp
next
  case (Some g)
  obtain g1 g2 where g: "g = (g1, g2)"
    by (cases g)
  show ?thesis
    using assms(2) unfolding read_registrations_Cons [OF assms(1)] Some g
    by (auto simp: bind_Inr_iff)
qed

lemma read_registrations_Cons_Inl:
  assumes "l \<noteq> []" and "read_registrations py (l # f) = Inl e"
  shows "e = Exception \<or> (\<exists>g. py_int py g = Inl e) \<or> read_registrations py f = Inl e"
proof (cases "re_registration py l")
  case None
  then show ?thesis
    using assms(2) unfolding read_registrations_Cons [OF assms(1)] by simp
next
  case (Some g)
  obtain g1 g2 where g: "g = (g1, g2)"
    by (cases g)
  show ?thesis
    using assms(2) unfolding read_registrations_Cons [OF assms(1)] Some g
    by (auto simp: bind_Inl_iff)
qed

lemma read_registrations_error:
  "read_registrations py f = Inl e \<Longrightarrow>
     e = Exception \<or> e = ValueError \<and> 0 < int_max_str_digits py"
proof (induction f)
  case Nil
  then show ?case by simp
next
  case (Cons l f)
  show ?case
  proof (cases "l = []")
    case True
    then show ?thesis using Cons.prems by simp
  next
    case False
    then show ?thesis
      using read_registrations_Cons_Inl [OF False Cons.prems] Cons.IH py_int_error
      by blast
  qed
qed

lemma read_registrations_nonneg:
  "read_registrations py f = Inr regs \<Longrightarrow> \<forall>(e, s) \<in> set regs. 0 \<le> e \<and> 0 \<le> s"
proof (induction f arbitrary: regs)
  case Nil
  then show ?case by simp
next
  case (Cons l f)
  show ?case
  proof (cases "l = []")
    case True
    then show ?thesis using Cons.prems by simp
  next
    case False
    obtain g1 g2 exam student rest where g: "py_int py g1 = Inr exam"
        "py_int py g2 = Inr student"
      and rest: "read_registrations py f = Inr rest"
      and regs: "regs = (exam, student) # rest"
      using read_registrations_Cons_Inr [OF False Cons.prems] by blast
    have "0 \<le> exam \<and> 0 \<le> student"
      using g py_int_nonneg by blast
    then show ?thesis
      using Cons.IH [OF rest] regs by simp
  qed
qed

lemma parse_file_Inr_D:
  assumes "parse_file py f = Inr inst"
  shows "\<exists>students f1 exams f2 slots f3 rooms f4 capacities f5 regs.
        read_attribute py (ascii ''Number of students'') f = Inr (students, f1) \<and>
        read_attribute py (ascii ''Number of exams'') f1 = Inr (exams, f2) \<and>
        read_attribute py (ascii ''Number of slots'') f2 = Inr (slots, f3) \<and>
        read_attribute py (ascii ''Number of rooms'') f3 = Inr (rooms, f4) \<and>
        read_rooms py (py_range rooms) f4 = Inr (capacities, f5) \<and>
        read_registrations py f5 = Inr regs \<and>
        inst = \<lparr>number_of_students = students, number_of_exams = exams,
               number_of_slots = slots, number_of_rooms = rooms,
               room_capacities = capacities, exams_to_students = regs,
               student_exam_capacity = []\<rparr>"
  using assms unfolding parse_file_def by (auto simp: bind_Inr_iff)

lemma parse_file_error:
  "parse_file py f = Inl e \<Longrightarrow> e = Exception \<or> e = ValueError \<and> 0 < int_max_str_digits py"
  unfolding parse_file_def
  by (auto simp: bind_Inl_iff
      dest: read_attribute_error read_rooms_error read_registrations_error)

lemma parse_file_result:
  assumes "parse_file py f = Inr inst"
  shows "0 \<le> number_of_students inst \<and> 0 \<le> number_of_exams inst \<and>
         0 \<le> number_of_slots inst \<and> 0 \<le> number_of_rooms inst \<and>
         int (length (room_capacities inst)) = number_of_rooms inst \<and>
         (\<forall>c \<in> set (room_capacities inst). 0 \<le> c) \<and>
         (\<forall>(e, s) \<in> set (exams_to_students inst). 0 \<le> e \<and> 0 \<le> s) \<and>
         student_exam_capacity inst = []"
proof -
  obtain students f1 exams f2 slots f3 rooms f4 capacities f5 regs where
    a: "read_attribute py (ascii ''Number of students'') f = Inr (students, f1)"
       "read_attribute py (ascii ''Number of exams'') f1 = Inr (exams, f2)"
       "read_attribute py (ascii ''Number of slots'') f2 = Inr (slots, f3)"
       "read_attribute py (ascii ''Number of rooms'') f3 = Inr (rooms, f4)"
    and r: "read_rooms py (py_range rooms) f4 = Inr (capacities, f5)"
    and g: "read_registrations py f5 = Inr regs"
    and i: "inst = \<lparr>number_of_students = students, number_of_exams = exams,
               number_of_slots = slots, number_of_rooms = rooms,
               room_capacities = capacities, exams_to_students = regs,
               student_exam_capacity = []\<rparr>"
    using parse_file_Inr_D [OF assms] by blast
  have n: "0 \<le> students" "0 \<le> exams" "0 \<le> slots" "0 \<le> rooms"
    using a read_attribute_nonneg by blast+
  have c: "length capacities = nat rooms" "\<forall>c \<in> set capacities. 0 \<le> c"
    using read_rooms_result [OF r] by (simp_all add: length_py_range)
  show ?thesis
    using n c read_registrations_nonneg [OF g] by (simp add: i)
qed

text \<open>
  Counting the students of each exam: the loop raises exactly when a registration names a
  position the list does not have, and a registration more, of an exam already
  registered, adds one to the count of that exam wherever it stands in the list.
\<close>

lemma count_students_length:
  "count_students c regs = Inr d \<Longrightarrow> length d = length c"
proof (induction c regs rule: count_students.induct)
  case (1 counts)
  then show ?case by simp
next
  case (2 counts exam student rest)
  then show ?case
    by (auto split: sum.splits dest: py_increment_length)
qed

lemma count_students_positions:
  "count_students c regs = Inr d \<Longrightarrow> (e, s) \<in> set regs \<Longrightarrow>
     \<exists>k. py_position (length c) e = Inr k"
proof (induction c regs rule: count_students.induct)
  case (1 counts)
  then show ?case by simp
next
  case (2 counts exam student rest)
  then show ?case
    by (auto split: sum.splits simp: py_increment_Inr_iff)
qed

lemma count_students_error:
  "count_students c regs = Inl err \<Longrightarrow>
     err = IndexError \<and> (\<exists>(e, s) \<in> set regs. py_position (length c) e = Inl IndexError)"
proof (induction c regs rule: count_students.induct)
  case (1 counts)
  then show ?case by simp
next
  case (2 counts exam student rest)
  show ?case
  proof (cases "py_increment counts exam")
    case (Inl e)
    then have "py_position (length counts) exam = Inl e"
      by (auto simp: py_increment_def split: sum.splits)
    then show ?thesis
      using "2.prems" Inl py_position_error by fastforce
  next
    case (Inr c')
    then show ?thesis
      using "2.IH" [OF Inr] "2.prems" py_increment_length [OF Inr] by auto
  qed
qed

lemma count_students_raises:
  assumes "(e, s) \<in> set regs" and "py_position (length c) e = Inl IndexError"
  shows "count_students c regs = Inl IndexError"
proof (cases "count_students c regs")
  case (Inl err)
  then show ?thesis
    using count_students_error by blast
next
  case (Inr d)
  then show ?thesis
    using count_students_positions [OF Inr assms(1)] assms(2) by simp
qed

lemma count_students_append:
  "count_students c (xs @ ys) =
     (case count_students c xs of Inl e \<Rightarrow> Inl e | Inr c' \<Rightarrow> count_students c' ys)"
proof (induction c xs rule: count_students.induct)
  case (1 counts)
  then show ?case by simp
next
  case (2 counts exam student rest)
  then show ?case by (simp split: sum.splits)
qed

lemma count_students_increment:
  "count_students c ys = Inr d \<Longrightarrow> py_increment c e = Inr c1 \<Longrightarrow>
     \<exists>d1. count_students c1 ys = Inr d1 \<and> py_increment d e = Inr d1"
proof (induction c ys arbitrary: c1 rule: count_students.induct)
  case (1 counts)
  then show ?case by simp
next
  case (2 counts exam student rest)
  obtain c' where c': "py_increment counts exam = Inr c'"
    and rest: "count_students c' rest = Inr d"
    using "2.prems"(1) by (auto split: sum.splits)
  obtain c3 where c3: "py_increment c1 exam = Inr c3" "py_increment c' e = Inr c3"
    using py_increment_commute [OF "2.prems"(2) c'] by blast
  obtain d1 where "count_students c3 rest = Inr d1" "py_increment d e = Inr d1"
    using "2.IH" [OF c' rest c3(2)] by blast
  then show ?case
    using c3(1) by simp
qed

lemma count_students_duplicate:
  assumes "count_students c (xs @ ys) = Inr d" and "(e, s) \<in> set (xs @ ys)"
  shows "\<exists>d1. count_students c (xs @ (e, s) # ys) = Inr d1 \<and> py_increment d e = Inr d1"
proof -
  obtain cx where cx: "count_students c xs = Inr cx" and d: "count_students cx ys = Inr d"
    using assms(1) unfolding count_students_append by (auto split: sum.splits)
  obtain k where "py_position (length c) e = Inr k"
    using count_students_positions [OF assms] by blast
  then obtain c1 where c1: "py_increment cx e = Inr c1"
    using count_students_length [OF cx] by (simp add: py_increment_def)
  obtain d1 where "count_students c1 ys = Inr d1" "py_increment d e = Inr d1"
    using count_students_increment [OF d c1] by blast
  then show ?thesis
    using cx c1 by (simp add: count_students_append)
qed

text \<open>
  The count of an exam is the number of its registrations in the list, when no
  registration has a negative exam (none that the parser returns has).
\<close>

lemma count_students_entry:
  "count_students c regs = Inr d \<Longrightarrow> \<forall>(e, s) \<in> set regs. 0 \<le> e \<Longrightarrow> k < length c \<Longrightarrow>
     d ! k = c ! k + int (length (filter (\<lambda>(e, s). e = int k) regs))"
proof (induction c regs rule: count_students.induct)
  case (1 counts)
  then show ?case by simp
next
  case (2 counts exam student rest)
  obtain c' where c': "py_increment counts exam = Inr c'"
    and rest: "count_students c' rest = Inr d"
    using "2.prems"(1) by (auto split: sum.splits)
  have exam: "0 \<le> exam"
    using "2.prems"(2) by simp
  obtain j where j: "py_position (length counts) exam = Inr j"
    and upd: "c' = counts[j := counts ! j + 1]"
    using c' unfolding py_increment_Inr_iff by blast
  have jn: "j = nat exam" "j < length counts"
    using j exam by (auto simp: py_position_def split: if_splits)
  have len: "length c' = length counts"
    using upd by simp
  have ih: "d ! k = c' ! k + int (length (filter (\<lambda>(e, s). e = int k) rest))"
    using "2.IH" [OF c' rest] "2.prems"(2,3) len by simp
  have "c' ! k = counts ! k + (if exam = int k then 1 else 0)"
    unfolding upd using jn "2.prems"(3) exam by (cases "j = k") auto
  then show ?case
    using ih by simp
qed

lemma py_zeros_Inr_iff:
  "py_zeros py n = Inr zs \<longleftrightarrow>
     \<not> (maxsize py < n \<or> n < - maxsize py - 1) \<and> allocates py n \<and>
     zs = replicate (nat n) 0"
  by (auto simp: py_zeros_def)

lemma count_registrations_Inr_iff:
  "count_registrations py inst = Inr a \<longleftrightarrow>
     (\<exists>d. py_zeros py (number_of_exams inst) = Inr (replicate (nat (number_of_exams inst)) 0) \<and>
          count_students (replicate (nat (number_of_exams inst)) 0) (exams_to_students inst) =
            Inr d \<and>
          a = inst\<lparr>student_exam_capacity := d\<rparr>)"
  by (auto simp: count_registrations_def bind_Inr_iff py_zeros_Inr_iff)

lemma read_file_Inr_iff:
  "read_file py f = Inr a \<longleftrightarrow>
     (\<exists>inst. parse_file py f = Inr inst \<and> count_registrations py inst = Inr a)"
  by (auto simp: read_file_def split: sum.splits)

text \<open>
  What \<open>read_file\<close> returns: no number is negative, the two tables have the lengths of the
  instance, and the entry of an exam in \<open>student_exam_capacity\<close> is the number of its
  registrations in the list.
\<close>

lemma read_file_result:
  assumes "read_file py f = Inr a"
  shows "0 \<le> number_of_students a \<and> 0 \<le> number_of_exams a \<and>
         0 \<le> number_of_slots a \<and> 0 \<le> number_of_rooms a \<and>
         int (length (room_capacities a)) = number_of_rooms a \<and>
         int (length (student_exam_capacity a)) = number_of_exams a \<and>
         (\<forall>(e, s) \<in> set (exams_to_students a). 0 \<le> e \<and> e < number_of_exams a \<and> 0 \<le> s)"
proof -
  obtain inst where p: "parse_file py f = Inr inst"
    and c: "count_registrations py inst = Inr a"
    using assms unfolding read_file_Inr_iff by blast
  obtain d where d: "count_students (replicate (nat (number_of_exams inst)) 0)
        (exams_to_students inst) = Inr d"
    and a: "a = inst\<lparr>student_exam_capacity := d\<rparr>"
    using c unfolding count_registrations_Inr_iff by blast
  note r = parse_file_result [OF p]
  have len: "length d = nat (number_of_exams inst)"
    using count_students_length [OF d] by simp
  have "0 \<le> e \<and> e < number_of_exams inst \<and> 0 \<le> s"
    if es: "(e, s) \<in> set (exams_to_students inst)" for e s
  proof -
    have n: "0 \<le> e \<and> 0 \<le> s"
      using r es by blast
    have "\<exists>k. py_position (nat (number_of_exams inst)) e = Inr k"
      using count_students_positions [OF d es] by simp
    then show ?thesis
      using n by (auto simp: py_position_def split: if_splits)
  qed
  then show ?thesis
    using r len by (auto simp: a)
qed

lemma read_file_counts:
  assumes "read_file py f = Inr a" and "0 \<le> e" and "e < number_of_exams a"
  shows "py_index (student_exam_capacity a) e = Inr (registration_lines a e)"
proof -
  obtain inst where p: "parse_file py f = Inr inst"
    and c: "count_registrations py inst = Inr a"
    using assms(1) unfolding read_file_Inr_iff by blast
  obtain d where d: "count_students (replicate (nat (number_of_exams inst)) 0)
        (exams_to_students inst) = Inr d"
    and a: "a = inst\<lparr>student_exam_capacity := d\<rparr>"
    using c unfolding count_registrations_Inr_iff by blast
  have ids: "\<forall>(e, s) \<in> set (exams_to_students inst). 0 \<le> e"
    using parse_file_result [OF p] by blast
  have k: "nat e < length (replicate (nat (number_of_exams inst)) (0::int))"
    using assms(2,3) by (simp add: a)
  have len: "length d = nat (number_of_exams inst)"
    using count_students_length [OF d] by simp
  have "d ! nat e = int (length (filter (\<lambda>(x, s). x = e) (exams_to_students inst)))"
    using count_students_entry [OF d ids k] assms(2,3) by (simp add: a)
  moreover have "py_index d e = Inr (d ! nat e)"
    using assms(2,3) len by (simp add: py_index_in_range a)
  ultimately show ?thesis
    by (simp add: a registration_lines_def)
qed

subsection \<open>What the assertions say\<close>

lemma models_append: "models m (xs @ ys) \<longleftrightarrow> models m xs \<and> models m ys"
  by (simp add: models_def)

lemma models_Cons: "models m (f # fs) \<longleftrightarrow> f m \<and> models m fs"
  by (simp add: models_def)

lemma models_Nil: "models m []"
  by (simp add: models_def)

lemma models_range_constraints:
  "models m (range_constraints inst) \<longleftrightarrow>
     (\<forall>x. Student_Range m x = (0 \<le> x \<and> x < number_of_students inst)) \<and>
     (\<forall>x. Exam_Range m x = (0 \<le> x \<and> x < number_of_exams inst)) \<and>
     (\<forall>x. TimeSlot_Range m x = (0 \<le> x \<and> x < number_of_slots inst)) \<and>
     (\<forall>x. Room_Range m x = (0 \<le> x \<and> x < number_of_rooms inst))"
  by (simp add: models_def range_constraints_def)

lemma models_student_facts:
  "models m (student_facts inst) \<longleftrightarrow>
     (\<forall>(e, s) \<in> set (exams_to_students inst). ExamStudent m e s)"
  by (auto simp: models_def student_facts_def list_all_iff)

lemma capacity_constraint_meaning:
  "capacity_constraint inst ex rm = Inr f \<Longrightarrow>
     f m \<longleftrightarrow> (ExamRoom m ex = rm \<longrightarrow> room_fits inst ex rm)"
  by (auto simp: capacity_constraint_def room_fits_def split: sum.splits)

lemma models_capacity_constraints:
  assumes "capacity_constraints inst = Inr caps"
  shows "models m caps \<longleftrightarrow>
           (\<forall>ex \<in> set (py_range (number_of_exams inst)).
            \<forall>rm \<in> set (py_range (number_of_rooms inst)).
              ExamRoom m ex = rm \<longrightarrow> room_fits inst ex rm)"
proof -
  let ?L = "concat (map (\<lambda>ex. map (\<lambda>rm. capacity_constraint inst ex rm)
                             (py_range (number_of_rooms inst)))
                    (py_range (number_of_exams inst)))"
  have L: "?L = map Inr caps"
    using assms by (simp add: capacity_constraints_def raise_first_Inr_iff)
  have mem: "f \<in> set caps \<longleftrightarrow>
      (\<exists>ex \<in> set (py_range (number_of_exams inst)).
       \<exists>rm \<in> set (py_range (number_of_rooms inst)). capacity_constraint inst ex rm = Inr f)" for f
  proof -
    have "f \<in> set caps \<longleftrightarrow> Inr f \<in> set ?L"
      unfolding L by auto
    also have "\<dots> \<longleftrightarrow> (\<exists>ex \<in> set (py_range (number_of_exams inst)).
       \<exists>rm \<in> set (py_range (number_of_rooms inst)). capacity_constraint inst ex rm = Inr f)"
      by (simp add: image_iff) metis
    finally show ?thesis .
  qed
  have ex_f: "\<exists>f. capacity_constraint inst ex rm = Inr f"
    if "ex \<in> set (py_range (number_of_exams inst))" "rm \<in> set (py_range (number_of_rooms inst))"
    for ex rm
  proof -
    have "capacity_constraint inst ex rm \<in> set ?L"
      using that by auto
    then show ?thesis unfolding L by auto
  qed
  show ?thesis
  proof
    assume m: "models m caps"
    show "\<forall>ex \<in> set (py_range (number_of_exams inst)).
            \<forall>rm \<in> set (py_range (number_of_rooms inst)).
              ExamRoom m ex = rm \<longrightarrow> room_fits inst ex rm"
    proof (intro ballI)
      fix ex rm
      assume r: "ex \<in> set (py_range (number_of_exams inst))"
                "rm \<in> set (py_range (number_of_rooms inst))"
      then obtain f where f: "capacity_constraint inst ex rm = Inr f"
        using ex_f by blast
      have "f \<in> set caps" using mem [of f] r f by blast
      have "\<forall>f \<in> set caps. f m"
        using m unfolding models_def list_all_iff .
      then have "f m" using \<open>f \<in> set caps\<close> by (rule bspec)
      then show "ExamRoom m ex = rm \<longrightarrow> room_fits inst ex rm"
        using capacity_constraint_meaning [OF f, of m] by simp
    qed
  next
    assume a: "\<forall>ex \<in> set (py_range (number_of_exams inst)).
            \<forall>rm \<in> set (py_range (number_of_rooms inst)).
              ExamRoom m ex = rm \<longrightarrow> room_fits inst ex rm"
    have "\<forall>f \<in> set caps. f m"
    proof
      fix f
      assume fc: "f \<in> set caps"
      obtain ex rm where r: "ex \<in> set (py_range (number_of_exams inst))"
          "rm \<in> set (py_range (number_of_rooms inst))"
          and f: "capacity_constraint inst ex rm = Inr f"
        using fc mem [of f] by blast
      have "ExamRoom m ex = rm \<longrightarrow> room_fits inst ex rm"
        using a r by blast
      then show "f m"
        using capacity_constraint_meaning [OF f, of m] by simp
    qed
    then show "models m caps" unfolding models_def list_all_iff .
  qed
qed

lemma models_constraints:
  assumes "constraints inst = Inr cs"
  shows "models m cs \<longleftrightarrow>
           models m (range_constraints inst) \<and> models m (student_facts inst) \<and>
           assignment_constraint m \<and>
           (\<forall>ex \<in> set (py_range (number_of_exams inst)).
            \<forall>rm \<in> set (py_range (number_of_rooms inst)).
              ExamRoom m ex = rm \<longrightarrow> room_fits inst ex rm) \<and>
           separation_constraint m"
proof -
  obtain caps where caps: "capacity_constraints inst = Inr caps"
    and cs: "cs = range_constraints inst @ student_facts inst @ [assignment_constraint] @
               caps @ [separation_constraint]"
    using assms by (auto simp: constraints_def split: sum.splits)
  show ?thesis
    unfolding cs models_append models_Cons
    using models_capacity_constraints [OF caps] by (simp add: models_Nil)
qed

lemma assignment_constraint_iff:
  assumes "models m (range_constraints inst)"
  shows "assignment_constraint m \<longleftrightarrow>
           (\<forall>e. 0 \<le> e \<and> e < number_of_exams inst \<longrightarrow>
              0 \<le> ExamRoom m e \<and> ExamRoom m e < number_of_rooms inst \<and>
              0 \<le> ExamTime m e \<and> ExamTime m e < number_of_slots inst \<and>
              (\<forall>e'. 0 \<le> e' \<and> e' < number_of_exams inst \<and> e' \<noteq> e \<longrightarrow>
                 \<not> (ExamRoom m e' = ExamRoom m e \<and> ExamTime m e' = ExamTime m e)))"
  using assms unfolding models_range_constraints assignment_constraint_def
  by (simp only: simp_thms ex_simps) auto

lemma separation_constraint_iff:
  assumes "models m (range_constraints inst)"
  shows "separation_constraint m \<longleftrightarrow>
           (\<forall>s e1 e2.
              0 \<le> s \<and> s < number_of_students inst \<and>
              0 \<le> e1 \<and> e1 < number_of_exams inst \<and>
              0 \<le> e2 \<and> e2 < number_of_exams inst \<and> e1 \<noteq> e2 \<and>
              0 \<le> ExamTime m e1 \<and> ExamTime m e1 < number_of_slots inst \<and>
              0 \<le> ExamTime m e2 \<and> ExamTime m e2 < number_of_slots inst \<and>
              ExamStudent m e1 s \<and> ExamStudent m e2 s \<longrightarrow>
              \<bar>ExamTime m e1 - ExamTime m e2\<bar> > 1)"
proof -
  have R: "\<And>x. Student_Range m x = (0 \<le> x \<and> x < number_of_students inst)"
    "\<And>x. Exam_Range m x = (0 \<le> x \<and> x < number_of_exams inst)"
    "\<And>x. TimeSlot_Range m x = (0 \<le> x \<and> x < number_of_slots inst)"
    using assms unfolding models_range_constraints by simp_all
  show ?thesis
  proof
    assume s: "separation_constraint m"
    show "\<forall>s e1 e2.
              0 \<le> s \<and> s < number_of_students inst \<and>
              0 \<le> e1 \<and> e1 < number_of_exams inst \<and>
              0 \<le> e2 \<and> e2 < number_of_exams inst \<and> e1 \<noteq> e2 \<and>
              0 \<le> ExamTime m e1 \<and> ExamTime m e1 < number_of_slots inst \<and>
              0 \<le> ExamTime m e2 \<and> ExamTime m e2 < number_of_slots inst \<and>
              ExamStudent m e1 s \<and> ExamStudent m e2 s \<longrightarrow>
              \<bar>ExamTime m e1 - ExamTime m e2\<bar> > 1"
    proof (intro allI impI)
      fix st e1 e2
      assume h: "0 \<le> st \<and> st < number_of_students inst \<and>
              0 \<le> e1 \<and> e1 < number_of_exams inst \<and>
              0 \<le> e2 \<and> e2 < number_of_exams inst \<and> e1 \<noteq> e2 \<and>
              0 \<le> ExamTime m e1 \<and> ExamTime m e1 < number_of_slots inst \<and>
              0 \<le> ExamTime m e2 \<and> ExamTime m e2 < number_of_slots inst \<and>
              ExamStudent m e1 st \<and> ExamStudent m e2 st"
      have "ExamTime m e1 + 1 \<noteq> ExamTime m e2 \<and> ExamTime m e1 - 1 \<noteq> ExamTime m e2 \<and>
            ExamTime m e1 \<noteq> ExamTime m e2"
        using s [unfolded separation_constraint_def, rule_format,
                 of st e1 e2 "ExamTime m e1" "ExamTime m e2"] h
        by (simp add: R)
      then show "\<bar>ExamTime m e1 - ExamTime m e2\<bar> > 1" by arith
    qed
  next
    assume a: "\<forall>s e1 e2.
              0 \<le> s \<and> s < number_of_students inst \<and>
              0 \<le> e1 \<and> e1 < number_of_exams inst \<and>
              0 \<le> e2 \<and> e2 < number_of_exams inst \<and> e1 \<noteq> e2 \<and>
              0 \<le> ExamTime m e1 \<and> ExamTime m e1 < number_of_slots inst \<and>
              0 \<le> ExamTime m e2 \<and> ExamTime m e2 < number_of_slots inst \<and>
              ExamStudent m e1 s \<and> ExamStudent m e2 s \<longrightarrow>
              \<bar>ExamTime m e1 - ExamTime m e2\<bar> > 1"
    show "separation_constraint m"
      unfolding separation_constraint_def
    proof (intro allI impI)
      fix student exam next_exam timeslot next_timeslot
      assume g: "Student_Range m student \<and> Exam_Range m exam \<and> Exam_Range m next_exam \<and>
         TimeSlot_Range m timeslot \<and> TimeSlot_Range m next_timeslot \<and> exam \<noteq> next_exam"
        and t: "ExamTime m exam = timeslot \<and> ExamTime m next_exam = next_timeslot \<and>
          ExamStudent m exam student \<and> ExamStudent m next_exam student"
      have "\<bar>ExamTime m exam - ExamTime m next_exam\<bar> > 1"
        using a [rule_format, of student exam next_exam] g t by (simp add: R)
      then show "timeslot + 1 \<noteq> next_timeslot \<and> timeslot - 1 \<noteq> next_timeslot \<and>
          timeslot \<noteq> next_timeslot"
        using t by arith
    qed
  qed
qed

text \<open>When the assertions are built without an exception.\<close>

lemma capacity_constraint_defined:
  assumes "0 \<le> ex" "ex < int (length (student_exam_capacity inst))"
    "0 \<le> rm" "rm < int (length (room_capacities inst))"
  shows "\<exists>f. capacity_constraint inst ex rm = Inr f"
  using assms by (simp add: capacity_constraint_def py_index_in_range)

lemma constraints_defined:
  assumes "number_of_exams inst \<le> int (length (student_exam_capacity inst))"
    and "number_of_rooms inst \<le> int (length (room_capacities inst))"
  shows "\<exists>cs. constraints inst = Inr cs"
proof -
  have "\<exists>caps. capacity_constraints inst = Inr caps"
    unfolding capacity_constraints_def
  proof (rule raise_first_all_Inr, rule ballI)
    fix x
    assume "x \<in> set (concat (map (\<lambda>ex. map (capacity_constraint inst ex)
                (py_range (number_of_rooms inst))) (py_range (number_of_exams inst))))"
    then obtain ex rm where "0 \<le> ex" "ex < number_of_exams inst" "0 \<le> rm"
        "rm < number_of_rooms inst" "x = capacity_constraint inst ex rm"
      by (auto simp: in_py_range)
    then show "\<exists>y. x = Inr y"
      using capacity_constraint_defined [of ex inst rm] assms by simp
  qed
  then show ?thesis by (auto simp: constraints_def)
qed

lemma constraints_capacity_constraints:
  "constraints inst = Inr cs \<Longrightarrow> \<exists>caps. capacity_constraints inst = Inr caps"
  by (auto simp: constraints_def split: sum.splits)

lemma capacity_constraints_index:
  assumes "capacity_constraints inst = Inr caps"
    and "e \<in> set (py_range (number_of_exams inst))"
    and "r \<in> set (py_range (number_of_rooms inst))"
  shows "\<exists>students capacity.
           py_index (student_exam_capacity inst) e = Inr students \<and>
           py_index (room_capacities inst) r = Inr capacity"
proof -
  have "concat (map (\<lambda>ex. map (\<lambda>rm. capacity_constraint inst ex rm)
                             (py_range (number_of_rooms inst)))
                    (py_range (number_of_exams inst))) = map Inr caps"
    using assms(1) by (simp add: capacity_constraints_def raise_first_Inr_iff)
  moreover have "capacity_constraint inst e r \<in>
      set (concat (map (\<lambda>ex. map (\<lambda>rm. capacity_constraint inst ex rm)
                             (py_range (number_of_rooms inst)))
                    (py_range (number_of_exams inst))))"
    using assms(2,3) by auto
  ultimately obtain f where "capacity_constraint inst e r = Inr f"
    by auto
  then show ?thesis
    by (auto simp: capacity_constraint_def split: sum.splits)
qed

lemma capacity_constraints_defined_iff:
  "(\<exists>caps. capacity_constraints inst = Inr caps) \<longleftrightarrow>
     (\<forall>ex \<in> set (py_range (number_of_exams inst)).
      \<forall>rm \<in> set (py_range (number_of_rooms inst)).
        \<exists>f. capacity_constraint inst ex rm = Inr f)"
proof
  assume "\<exists>caps. capacity_constraints inst = Inr caps"
  then obtain caps where caps: "capacity_constraints inst = Inr caps" by blast
  show "\<forall>ex \<in> set (py_range (number_of_exams inst)).
      \<forall>rm \<in> set (py_range (number_of_rooms inst)).
        \<exists>f. capacity_constraint inst ex rm = Inr f"
  proof (intro ballI)
    fix ex rm
    assume "ex \<in> set (py_range (number_of_exams inst))"
      "rm \<in> set (py_range (number_of_rooms inst))"
    then obtain students capacity where
      "py_index (student_exam_capacity inst) ex = Inr students"
      "py_index (room_capacities inst) rm = Inr capacity"
      using capacity_constraints_index [OF caps] by blast
    then show "\<exists>f. capacity_constraint inst ex rm = Inr f"
      by (simp add: capacity_constraint_def)
  qed
next
  assume a: "\<forall>ex \<in> set (py_range (number_of_exams inst)).
      \<forall>rm \<in> set (py_range (number_of_rooms inst)).
        \<exists>f. capacity_constraint inst ex rm = Inr f"
  show "\<exists>caps. capacity_constraints inst = Inr caps"
    unfolding capacity_constraints_def
  proof (rule raise_first_all_Inr, rule ballI)
    fix x
    assume "x \<in> set (concat (map (\<lambda>ex. map (capacity_constraint inst ex)
                (py_range (number_of_rooms inst))) (py_range (number_of_exams inst))))"
    then obtain ex rm where "ex \<in> set (py_range (number_of_exams inst))"
        "rm \<in> set (py_range (number_of_rooms inst))" "x = capacity_constraint inst ex rm"
      by auto
    then show "\<exists>y. x = Inr y"
      using a by blast
  qed
qed

lemma capacity_constraint_defined_iff:
  "(\<exists>f. capacity_constraint inst ex rm = Inr f) \<longleftrightarrow>
     (\<exists>k. py_position (length (student_exam_capacity inst)) ex = Inr k) \<and>
     (\<exists>k. py_position (length (room_capacities inst)) rm = Inr k)"
  by (auto simp: capacity_constraint_def py_index_def split: sum.splits)

lemma constraints_defined_iff:
  "(\<exists>cs. constraints inst = Inr cs) \<longleftrightarrow> (\<exists>caps. capacity_constraints inst = Inr caps)"
  by (auto simp: constraints_def split: sum.splits)

lemma constraints_defined_cong:
  assumes "number_of_exams a = number_of_exams b" "number_of_rooms a = number_of_rooms b"
    "length (student_exam_capacity a) = length (student_exam_capacity b)"
    "length (room_capacities a) = length (room_capacities b)"
  shows "(\<exists>cs. constraints a = Inr cs) \<longleftrightarrow> (\<exists>cs. constraints b = Inr cs)"
  unfolding constraints_defined_iff capacity_constraints_defined_iff
    capacity_constraint_defined_iff assms ..

lemma capacity_family_iff:
  "capacity_family inst m \<longleftrightarrow>
     (\<exists>caps. capacity_constraints inst = Inr caps) \<and>
     (\<forall>ex \<in> set (py_range (number_of_exams inst)).
      \<forall>rm \<in> set (py_range (number_of_rooms inst)).
        ExamRoom m ex = rm \<longrightarrow> room_fits inst ex rm)"
  using models_capacity_constraints [of inst _ m]
  by (auto simp: capacity_family_def split: sum.splits)

lemma valid_instance_constraints:
  "valid_instance inst \<Longrightarrow> \<exists>cs. constraints inst = Inr cs"
  by (rule constraints_defined) (simp_all add: valid_instance_def)


subsection \<open>The assertions and the timetables they admit\<close>

text \<open>
  An interpretation that satisfies the assertions gives a timetable of which
  \<open>asserted_solution\<close> holds, and a timetable of which it holds gives an interpretation
  that satisfies the assertions.
\<close>

lemma share_student_in_range_iff:
  "share_student_in_range inst e1 e2 \<longleftrightarrow>
     (\<exists>s. 0 \<le> s \<and> s < number_of_students inst \<and>
          (e1, s) \<in> set (exams_to_students inst) \<and> (e2, s) \<in> set (exams_to_students inst))"
  by (auto simp: share_student_in_range_def)

lemma spec_total_assignment_iff:
  "spec_total_assignment inst room time \<longleftrightarrow>
     (\<forall>e. 0 \<le> e \<and> e < number_of_exams inst \<longrightarrow>
        0 \<le> room e \<and> room e < number_of_rooms inst \<and>
        0 \<le> time e \<and> time e < number_of_slots inst)"
  by (simp add: spec_total_assignment_def Ball_def in_py_range)

lemma spec_no_double_booking_iff:
  "spec_no_double_booking inst room time \<longleftrightarrow>
     (\<forall>e1 e2. 0 \<le> e1 \<and> e1 < number_of_exams inst \<and>
        0 \<le> e2 \<and> e2 < number_of_exams inst \<and> e1 \<noteq> e2 \<longrightarrow>
        \<not> (room e1 = room e2 \<and> time e1 = time e2))"
  unfolding spec_no_double_booking_def Ball_def in_py_range by blast

lemma models_range_model_of: "models (model_of inst room time) (range_constraints inst)"
  by (simp add: models_range_constraints model_of_def)

lemma models_facts_model_of: "models (model_of inst room time) (student_facts inst)"
  by (auto simp: models_student_facts model_of_def)

lemma constraints_sound:
  assumes cs: "constraints inst = Inr cs" and m: "models m cs"
  shows "asserted_solution inst (ExamRoom m) (ExamTime m)"
proof -
  have R: "models m (range_constraints inst)"
    and F: "models m (student_facts inst)"
    and A: "assignment_constraint m"
    and C: "\<forall>ex \<in> set (py_range (number_of_exams inst)).
            \<forall>rm \<in> set (py_range (number_of_rooms inst)).
              ExamRoom m ex = rm \<longrightarrow> room_fits inst ex rm"
    and S: "separation_constraint m"
    using m models_constraints [OF cs, of m] by simp_all
  note A' = A [unfolded assignment_constraint_iff [OF R], rule_format]
  note S' = S [unfolded separation_constraint_iff [OF R], rule_format]
  have F': "ExamStudent m e s" if "(e, s) \<in> set (exams_to_students inst)" for e s
    using F that unfolding models_student_facts by blast
  have total: "spec_total_assignment inst (ExamRoom m) (ExamTime m)"
    unfolding spec_total_assignment_def Ball_def in_py_range using A' by blast
  have cap: "asserted_room_capacity inst (ExamRoom m)"
    unfolding asserted_room_capacity_def
  proof
    fix e
    assume e: "e \<in> set (py_range (number_of_exams inst))"
    then have "ExamRoom m e \<in> set (py_range (number_of_rooms inst))"
      using A' [of e] by (simp add: in_py_range)
    then show "room_fits inst e (ExamRoom m e)"
      using C e by blast
  qed
  have book: "spec_no_double_booking inst (ExamRoom m) (ExamTime m)"
    unfolding spec_no_double_booking_def Ball_def in_py_range using A' by blast
  have sep: "asserted_student_separation inst (ExamTime m)"
    unfolding asserted_student_separation_def
  proof (intro ballI impI)
    fix e1 e2
    assume e1: "e1 \<in> set (py_range (number_of_exams inst))"
      and e2: "e2 \<in> set (py_range (number_of_exams inst))"
      and h: "e1 \<noteq> e2 \<and> share_student_in_range inst e1 e2"
    obtain s where s: "0 \<le> s" "s < number_of_students inst"
        "(e1, s) \<in> set (exams_to_students inst)" "(e2, s) \<in> set (exams_to_students inst)"
      using h unfolding share_student_in_range_iff by blast
    show "\<bar>ExamTime m e1 - ExamTime m e2\<bar> > 1"
      using S' [of s e1 e2] s h e1 e2 A' [of e1] A' [of e2] F' [of e1 s] F' [of e2 s]
      by (simp add: in_py_range)
  qed
  show ?thesis
    unfolding asserted_solution_def using total cap book sep by simp
qed

lemma constraints_complete:
  assumes cs: "constraints inst = Inr cs" and ok: "asserted_solution inst room time"
  shows "models (model_of inst room time) cs"
proof -
  let ?m = "model_of inst room time"
  have R: "models ?m (range_constraints inst)" by (rule models_range_model_of)
  have F: "models ?m (student_facts inst)" by (rule models_facts_model_of)
  have sel: "ExamRoom ?m = room" "ExamTime ?m = time"
    "ExamStudent ?m = (\<lambda>e s. (e, s) \<in> set (exams_to_students inst))"
    by (simp_all add: model_of_def)
  have total: "spec_total_assignment inst room time"
    and cap: "asserted_room_capacity inst room"
    and book: "spec_no_double_booking inst room time"
    and sep: "asserted_student_separation inst time"
    using ok unfolding asserted_solution_def by simp_all
  have A: "assignment_constraint ?m"
    unfolding assignment_constraint_iff [OF R] sel
    using total book
    unfolding spec_total_assignment_def spec_no_double_booking_def Ball_def in_py_range
    by blast
  have C: "\<forall>ex \<in> set (py_range (number_of_exams inst)).
            \<forall>rm \<in> set (py_range (number_of_rooms inst)).
              ExamRoom ?m ex = rm \<longrightarrow> room_fits inst ex rm"
    unfolding sel using cap unfolding asserted_room_capacity_def by blast
  have S: "separation_constraint ?m"
    unfolding separation_constraint_iff [OF R] sel
  proof (intro allI impI)
    fix s e1 e2
    assume h: "0 \<le> s \<and> s < number_of_students inst \<and>
              0 \<le> e1 \<and> e1 < number_of_exams inst \<and>
              0 \<le> e2 \<and> e2 < number_of_exams inst \<and> e1 \<noteq> e2 \<and>
              0 \<le> time e1 \<and> time e1 < number_of_slots inst \<and>
              0 \<le> time e2 \<and> time e2 < number_of_slots inst \<and>
              (e1, s) \<in> set (exams_to_students inst) \<and> (e2, s) \<in> set (exams_to_students inst)"
    then have "share_student_in_range inst e1 e2"
      unfolding share_student_in_range_iff by blast
    then show "\<bar>time e1 - time e2\<bar> > 1"
      using sep h unfolding asserted_student_separation_def Ball_def in_py_range by blast
  qed
  show ?thesis
    using models_constraints [OF cs, of ?m] R F A C S by simp
qed

lemma room_fits_index:
  "0 \<le> e \<Longrightarrow> room_fits inst e r \<Longrightarrow> e < int (length (student_exam_capacity inst))"
  by (auto simp: room_fits_def py_index_def py_position_def split: sum.splits if_splits)

lemma asserted_room_capacity_length:
  assumes "asserted_room_capacity inst room"
  shows "number_of_exams inst \<le> int (length (student_exam_capacity inst))"
proof (cases "0 < number_of_exams inst")
  case True
  then have "number_of_exams inst - 1 \<in> set (py_range (number_of_exams inst))"
    by (simp add: in_py_range)
  then have "room_fits inst (number_of_exams inst - 1) (room (number_of_exams inst - 1))"
    using assms unfolding asserted_room_capacity_def by blast
  then show ?thesis
    using room_fits_index [of "number_of_exams inst - 1"] True by fastforce
next
  case False
  then show ?thesis by simp
qed

lemma room_fits_increment:
  assumes "py_increment (student_exam_capacity a) e = Inr (student_exam_capacity b)"
    and "room_capacities b = room_capacities a"
    and "room_fits b ex rm"
  shows "room_fits a ex rm"
proof -
  obtain k where k: "py_position (length (student_exam_capacity a)) e = Inr k"
    "student_exam_capacity b = (student_exam_capacity a)[k := student_exam_capacity a ! k + 1]"
    using assms(1) unfolding py_increment_Inr_iff by blast
  obtain j students capacity where
    j: "py_position (length (student_exam_capacity b)) ex = Inr j"
    and s: "students = student_exam_capacity b ! j"
    and c: "py_index (room_capacities b) rm = Inr capacity"
    and le: "students \<le> capacity"
    using assms(3) by (auto simp: room_fits_def py_index_def split: sum.splits)
  have len: "length (student_exam_capacity b) = length (student_exam_capacity a)"
    using k(2) by simp
  have "j < length (student_exam_capacity a)"
    using j len py_position_less by fastforce
  then have "student_exam_capacity a ! j \<le> students"
    unfolding s k(2) by (cases "k = j") simp_all
  then show ?thesis
    using j c le len assms(2) by (simp add: room_fits_def py_index_def)
qed


subsection \<open>The families asserted and those of the specification\<close>

text \<open>
  The students of an exam are the different students registered for it, so at most its
  registrations, and as many when no registration is listed twice. Two exams that share a
  student in the range of the instance share a student.
\<close>

lemma studentCount_card:
  "studentCount inst e = int (card {s. (e, s) \<in> set (exams_to_students inst)})"
proof -
  have "set (map snd (filter (\<lambda>(exam, student). exam = e) (exams_to_students inst))) =
        {s. (e, s) \<in> set (exams_to_students inst)}"
    by force
  then show ?thesis
    by (simp only: studentCount_def length_remdups_card_conv)
qed

lemma studentCount_le_lines: "studentCount inst e \<le> registration_lines inst e"
  using length_remdups_leq
    [of "map snd (filter (\<lambda>(exam, student). exam = e) (exams_to_students inst))"]
  by (simp add: studentCount_def registration_lines_def)

lemma studentCount_distinct:
  assumes "distinct (exams_to_students inst)"
  shows "studentCount inst e = registration_lines inst e"
proof -
  let ?xs = "filter (\<lambda>(exam, student). exam = e) (exams_to_students inst)"
  have "distinct ?xs"
    using assms by simp
  moreover have "inj_on snd (set ?xs)"
    by (auto simp: inj_on_def)
  ultimately have "distinct (map snd ?xs)"
    by (simp add: distinct_map)
  then show ?thesis
    by (simp add: studentCount_def registration_lines_def distinct_remdups_id)
qed

lemma share_student_iff:
  "share_student inst e1 e2 \<longleftrightarrow>
     (\<exists>s. (e1, s) \<in> set (exams_to_students inst) \<and> (e2, s) \<in> set (exams_to_students inst))"
  by (auto simp: share_student_def)

lemma share_student_in_range_share:
  "share_student_in_range inst e1 e2 \<Longrightarrow> share_student inst e1 e2"
  unfolding share_student_in_range_iff share_student_iff by blast

lemma spec_separation_asserted:
  "spec_student_separation inst time \<Longrightarrow> asserted_student_separation inst time"
  unfolding spec_student_separation_def asserted_student_separation_def
  using share_student_in_range_share by blast

lemma read_file_room_fits:
  assumes "read_file py f = Inr inst" and "e \<in> set (py_range (number_of_exams inst))"
  shows "room_fits inst e r \<longleftrightarrow>
           (case py_index (room_capacities inst) r of
              Inl _ \<Rightarrow> False
            | Inr capacity \<Rightarrow> registration_lines inst e \<le> capacity)"
  using read_file_counts [OF assms(1), of e] assms(2)
  by (simp add: room_fits_def in_py_range)

lemma asserted_room_capacity_spec:
  assumes "read_file py f = Inr inst" and "spec_total_assignment inst room time"
    and "asserted_room_capacity inst room"
  shows "spec_room_capacity inst room"
  unfolding spec_room_capacity_def
proof
  fix e
  assume e: "e \<in> set (py_range (number_of_exams inst))"
  have r: "0 \<le> room e" "room e < int (length (room_capacities inst))"
    using assms(2) e read_file_result [OF assms(1)]
    by (simp_all add: spec_total_assignment_def)
  have "room_fits inst e (room e)"
    using assms(3) e unfolding asserted_room_capacity_def by blast
  then have "registration_lines inst e \<le> room_capacities inst ! nat (room e)"
    unfolding read_file_room_fits [OF assms(1) e] using r by (simp add: py_index_in_range)
  then show "0 \<le> room e \<and> room e < int (length (room_capacities inst)) \<and>
        studentCount inst e \<le> room_capacities inst ! nat (room e)"
    using r studentCount_le_lines [of inst e] by simp
qed

lemma spec_room_capacity_asserted:
  assumes "read_file py f = Inr inst" and "distinct (exams_to_students inst)"
    and "spec_room_capacity inst room"
  shows "asserted_room_capacity inst room"
  unfolding asserted_room_capacity_def
proof
  fix e
  assume e: "e \<in> set (py_range (number_of_exams inst))"
  then have "0 \<le> room e \<and> room e < int (length (room_capacities inst)) \<and>
        studentCount inst e \<le> room_capacities inst ! nat (room e)"
    using assms(3) unfolding spec_room_capacity_def by blast
  then show "room_fits inst e (room e)"
    unfolding read_file_room_fits [OF assms(1) e] studentCount_distinct [OF assms(2)]
    by (simp add: py_index_in_range)
qed

lemma spec_solution_asserted:
  assumes "read_file py f = Inr inst" and "distinct (exams_to_students inst)"
    and "spec_solution inst room time"
  shows "asserted_solution inst room time"
  using assms(3) spec_room_capacity_asserted [OF assms(1,2)] spec_separation_asserted
  unfolding spec_solution_def asserted_solution_def by blast

subsection \<open>The answers of Z3 and what \<open>solve\<close> prints\<close>

lemma check_answer_sat_iff:
  "check_answer inst (sat m) \<longleftrightarrow> (\<exists>cs. constraints inst = Inr cs \<and> models m cs)"
  by (auto simp: check_answer_def z3_answer_ok_def split: sum.splits)

lemma check_answer_unsat_iff:
  "check_answer inst unsat \<longleftrightarrow>
     (\<exists>cs. constraints inst = Inr cs) \<and> (\<nexists>m. check_answer inst (sat m))"
  by (auto simp: check_answer_def z3_answer_ok_def split: sum.splits)

lemma check_answer_unknown_iff:
  "check_answer inst unknown \<longleftrightarrow> (\<exists>cs. constraints inst = Inr cs)"
  by (auto simp: check_answer_def z3_answer_ok_def split: sum.splits)

lemma check_answer_constraints:
  "check_answer inst r \<Longrightarrow> \<exists>cs. constraints inst = Inr cs"
  by (auto simp: check_answer_def split: sum.splits)

lemma check_answer_sound:
  "check_answer inst (sat m) \<Longrightarrow> asserted_solution inst (ExamRoom m) (ExamTime m)"
  unfolding check_answer_sat_iff using constraints_sound by blast

lemma check_answer_model_of:
  assumes "check_answer inst r" and "asserted_solution inst room time"
  shows "check_answer inst (sat (model_of inst room time))"
proof -
  obtain cs where cs: "constraints inst = Inr cs"
    using assms(1) check_answer_constraints by blast
  show ?thesis
    unfolding check_answer_sat_iff using cs constraints_complete [OF cs assms(2)] by blast
qed

lemma read_file_check_answer:
  assumes "read_file py f = Inr a"
  shows "check_answer a unknown"
  unfolding check_answer_unknown_iff
  using read_file_result [OF assms] by (intro constraints_defined) simp_all

lemma solve_not_sat:
  "constraints inst = Inr cs \<Longrightarrow> r = unsat \<or> r = unknown \<Longrightarrow> solve inst r = Inr Unsatisfied"
  by (auto simp: solve_def)

lemma exam_rows_defined:
  assumes "number_of_exams inst \<le> int (length (student_exam_capacity inst))"
  shows "exam_rows inst m =
           Inr (map (\<lambda>e. (e, ExamRoom m e, ExamTime m e, student_exam_capacity inst ! nat e))
                  (py_range (number_of_exams inst)))"
proof -
  have "map (exam_row inst m) (py_range (number_of_exams inst)) =
        map Inr (map (\<lambda>e. (e, ExamRoom m e, ExamTime m e, student_exam_capacity inst ! nat e))
                  (py_range (number_of_exams inst)))"
    using assms by (simp add: exam_row_def in_py_range py_index_in_range)
  then show ?thesis
    by (simp only: exam_rows_def raise_first_map_Inr)
qed

lemma exam_rows_defined_iff:
  "(\<exists>rows. exam_rows inst m = Inr rows) \<longleftrightarrow>
     (\<forall>ex \<in> set (py_range (number_of_exams inst)).
        \<exists>k. py_position (length (student_exam_capacity inst)) ex = Inr k)"
proof
  assume "\<exists>rows. exam_rows inst m = Inr rows"
  then obtain rows where
    "map (exam_row inst m) (py_range (number_of_exams inst)) = map Inr rows"
    by (auto simp: exam_rows_def raise_first_Inr_iff)
  then have "\<forall>ex \<in> set (py_range (number_of_exams inst)). \<exists>row. exam_row inst m ex = Inr row"
    by (metis (no_types, lifting) imageE image_eqI list.set_map)
  moreover have "\<exists>k. py_position (length (student_exam_capacity inst)) ex = Inr k"
    if "exam_row inst m ex = Inr row" for ex row
    using that
    by (cases "py_position (length (student_exam_capacity inst)) ex")
       (simp_all add: exam_row_def py_index_def)
  ultimately show "\<forall>ex \<in> set (py_range (number_of_exams inst)).
        \<exists>k. py_position (length (student_exam_capacity inst)) ex = Inr k"
    by blast
next
  assume a: "\<forall>ex \<in> set (py_range (number_of_exams inst)).
        \<exists>k. py_position (length (student_exam_capacity inst)) ex = Inr k"
  show "\<exists>rows. exam_rows inst m = Inr rows"
    unfolding exam_rows_def
  proof (rule raise_first_all_Inr, rule ballI)
    fix x
    assume "x \<in> set (map (exam_row inst m) (py_range (number_of_exams inst)))"
    then obtain ex where "ex \<in> set (py_range (number_of_exams inst))" "x = exam_row inst m ex"
      by auto
    then show "\<exists>y. x = Inr y"
      using a by (auto simp: exam_row_def py_index_def split: sum.splits)
  qed
qed

lemma solve_raises_iff:
  "(\<exists>err. solve inst r = Inl err) \<longleftrightarrow>
     \<not> (\<exists>cs. constraints inst = Inr cs) \<or>
     (\<exists>m. r = sat m \<and> \<not> (\<exists>rows. exam_rows inst m = Inr rows))"
proof (cases "constraints inst")
  case (Inl e)
  then show ?thesis by (simp add: solve_def)
next
  case (Inr cs)
  show ?thesis
  proof (cases r)
    case (sat m)
    then show ?thesis
      using Inr by (cases "exam_rows inst m") (simp_all add: solve_def)
  next
    case unsat
    then show ?thesis using Inr by (simp add: solve_def)
  next
    case unknown
    then show ?thesis using Inr by (simp add: solve_def)
  qed
qed

lemma solve_raises_cong:
  assumes "number_of_exams a = number_of_exams b" "number_of_rooms a = number_of_rooms b"
    "length (student_exam_capacity a) = length (student_exam_capacity b)"
    "length (room_capacities a) = length (room_capacities b)"
  shows "(\<exists>err. solve a r = Inl err) \<longleftrightarrow> (\<exists>err. solve b r = Inl err)"
  unfolding solve_raises_iff exam_rows_defined_iff constraints_defined_cong [OF assms]
    assms(1,3) ..

lemma solve_sat:
  assumes "check_answer inst (sat m)"
  shows "solve inst (sat m) =
           Inr (Satisfied
                  (map (\<lambda>e. (e, ExamRoom m e, ExamTime m e, student_exam_capacity inst ! nat e))
                     (py_range (number_of_exams inst)))
                  (student_lines inst m) (students_with_many_exams inst m))"
proof -
  obtain cs where cs: "constraints inst = Inr cs"
    using assms check_answer_constraints by blast
  have "asserted_room_capacity inst (ExamRoom m)"
    using check_answer_sound [OF assms] by (simp add: asserted_solution_def)
  then have "number_of_exams inst \<le> int (length (student_exam_capacity inst))"
    by (rule asserted_room_capacity_length)
  then show ?thesis
    using cs by (simp add: solve_def exam_rows_defined)
qed

lemma solve_Satisfied_sat:
  "solve inst r = Inr (Satisfied rows lines warning) \<Longrightarrow> \<exists>m. r = sat m"
  by (cases r) (auto simp: solve_def split: sum.splits)




lemma pigeonhole_no_model:
  assumes "number_of_rooms inst = 1" "number_of_slots inst = 1" "number_of_exams inst = 2"
  shows "\<not> check_answer inst (sat m)"
proof
  assume "check_answer inst (sat m)"
  then have ok: "asserted_solution inst (ExamRoom m) (ExamTime m)"
    by (rule check_answer_sound)
  have t: "spec_total_assignment inst (ExamRoom m) (ExamTime m)"
    and b: "spec_no_double_booking inst (ExamRoom m) (ExamTime m)"
    using ok by (simp_all add: asserted_solution_def)
  have t': "0 \<le> e \<and> e < 2 \<Longrightarrow>
      0 \<le> ExamRoom m e \<and> ExamRoom m e < 1 \<and> 0 \<le> ExamTime m e \<and> ExamTime m e < 1" for e
    using t assms unfolding spec_total_assignment_iff by simp
  have "ExamRoom m 0 = 0 \<and> ExamTime m 0 = 0" "ExamRoom m 1 = 0 \<and> ExamTime m 1 = 0"
    using t' [of 0] t' [of 1] by simp_all
  moreover have "\<not> (ExamRoom m 0 = ExamRoom m 1 \<and> ExamTime m 0 = ExamTime m 1)"
    using b [unfolded spec_no_double_booking_iff, rule_format, of 0 1] assms by simp
  ultimately show False by simp
qed

subsection \<open>The example instances\<close>

lemma read_file_scenario: "read_file cpython64 scenario_file = Inr scenario_instance"
  by code_simp

lemma asserted_solution_scenario: "asserted_solution scenario_instance scenario_room scenario_time"
  by code_simp

lemma valid_scenario: "valid_instance scenario_instance"
  by code_simp

lemma check_answer_scenario: "check_answer scenario_instance (sat scenario_model)"
proof -
  have "check_answer scenario_instance unknown"
    unfolding check_answer_unknown_iff
    using valid_scenario by (rule valid_instance_constraints)
  then show ?thesis
    unfolding scenario_model_def
    using asserted_solution_scenario by (rule check_answer_model_of)
qed

lemma solve_scenario:
  "solve scenario_instance (sat scenario_model) =
     Inr (Satisfied [(0, 0, 0, 1), (1, 0, 2, 1), (2, 0, 1, 1)]
            [Timetable 0 [(0, 0, 0), (1, 2, 0)], Timetable 1 [(2, 1, 0)]] [])"
proof -
  have "map (\<lambda>e. (e, ExamRoom scenario_model e, ExamTime scenario_model e,
                 student_exam_capacity scenario_instance ! nat e))
          (py_range (number_of_exams scenario_instance)) =
        [(0, 0, 0, 1), (1, 0, 2, 1), (2, 0, 1, 1)]"
    by code_simp
  moreover have "student_lines scenario_instance scenario_model =
      [Timetable 0 [(0, 0, 0), (1, 2, 0)], Timetable 1 [(2, 1, 0)]]"
    by code_simp
  moreover have "students_with_many_exams scenario_instance scenario_model = []"
    by code_simp
  ultimately show ?thesis
    using solve_sat [OF check_answer_scenario] by simp
qed

lemma read_file_pigeonhole: "read_file cpython64 pigeonhole_file = Inr pigeonhole_instance"
  by code_simp



lemma read_file_full_room: "read_file cpython64 full_room_file = Inr full_room_instance"
  by code_simp

lemma check_answer_full_room: "check_answer full_room_instance (sat full_room_model)"
proof -
  have "valid_instance full_room_instance"
    by code_simp
  then have "check_answer full_room_instance unknown"
    unfolding check_answer_unknown_iff by (rule valid_instance_constraints)
  moreover have "asserted_solution full_room_instance (\<lambda>e. 0) (\<lambda>e. 0)"
    by code_simp
  ultimately show ?thesis
    unfolding full_room_model_def by (rule check_answer_model_of)
qed

lemma solve_full_room:
  "solve full_room_instance (sat full_room_model) =
     Inr (Satisfied [(0, 0, 0, 1)] [Timetable 0 [(0, 0, 0)]] [])"
proof -
  have "map (\<lambda>e. (e, ExamRoom full_room_model e, ExamTime full_room_model e,
                 student_exam_capacity full_room_instance ! nat e))
          (py_range (number_of_exams full_room_instance)) = [(0, 0, 0, 1)]"
    by code_simp
  moreover have "student_lines full_room_instance full_room_model = [Timetable 0 [(0, 0, 0)]]"
    by code_simp
  moreover have "students_with_many_exams full_room_instance full_room_model = []"
    by code_simp
  ultimately show ?thesis
    using solve_sat [OF check_answer_full_room] by simp
qed

lemma read_file_duplicate: "read_file cpython64 duplicate_file = Inr duplicate_instance"
  by code_simp

lemma duplicate_no_model: "\<not> check_answer duplicate_instance (sat m)"
proof
  assume "check_answer duplicate_instance (sat m)"
  then have ok: "asserted_solution duplicate_instance (ExamRoom m) (ExamTime m)"
    by (rule check_answer_sound)
  have e: "0 \<in> set (py_range (number_of_exams duplicate_instance))"
    by (simp add: duplicate_instance_def in_py_range)
  have "0 \<le> ExamRoom m 0 \<and> ExamRoom m 0 < 1"
    using ok e by (auto simp: asserted_solution_def spec_total_assignment_def duplicate_instance_def)
  then have "ExamRoom m 0 = 0" by simp
  moreover have "room_fits duplicate_instance 0 (ExamRoom m 0)"
    using ok e unfolding asserted_solution_def asserted_room_capacity_def by blast
  ultimately have "room_fits duplicate_instance 0 0" by simp
  then show False
    by (simp add: room_fits_def duplicate_instance_def py_index_def py_position_def)
qed

lemma check_answer_duplicate_unknown: "check_answer duplicate_instance unknown"
  unfolding check_answer_unknown_iff
  by (rule constraints_defined) (simp_all add: duplicate_instance_def)

lemma parse_file_stray_exam: "parse_file cpython64 stray_exam_file = Inr stray_exam_parsed"
  by code_simp

lemma parse_file_negative_count: "parse_file cpython64 negative_count_file = Inl Exception"
  by code_simp

lemma read_file_stranger: "read_file cpython64 stranger_file = Inr stranger_instance"
  by code_simp

lemma check_answer_stranger: "check_answer stranger_instance (sat stranger_model)"
proof -
  have "check_answer stranger_instance unknown"
    unfolding check_answer_unknown_iff
    by (rule constraints_defined) (simp_all add: stranger_instance_def)
  moreover have "asserted_solution stranger_instance scenario_room adjacent_time"
    by code_simp
  ultimately show ?thesis
    unfolding stranger_model_def by (rule check_answer_model_of)
qed

lemma solve_stranger:
  "solve stranger_instance (sat stranger_model) =
     Inr (Satisfied [(0, 0, 0, 1), (1, 0, 1, 1)] [NotScheduled 0] [])"
proof -
  have "map (\<lambda>e. (e, ExamRoom stranger_model e, ExamTime stranger_model e,
                 student_exam_capacity stranger_instance ! nat e))
          (py_range (number_of_exams stranger_instance)) = [(0, 0, 0, 1), (1, 0, 1, 1)]"
    by code_simp
  moreover have "student_lines stranger_instance stranger_model = [NotScheduled 0]"
    by code_simp
  moreover have "students_with_many_exams stranger_instance stranger_model = []"
    by code_simp
  ultimately show ?thesis
    using solve_sat [OF check_answer_stranger] by simp
qed

lemma stranger_adjacent:
  assumes "check_answer stranger_instance (sat m)"
  shows "\<bar>ExamTime m 0 - ExamTime m 1\<bar> = 1"
proof -
  have ok: "asserted_solution stranger_instance (ExamRoom m) (ExamTime m)"
    using assms by (rule check_answer_sound)
  have t: "0 \<le> e \<and> e < 2 \<Longrightarrow>
      0 \<le> ExamRoom m e \<and> ExamRoom m e < 1 \<and> 0 \<le> ExamTime m e \<and> ExamTime m e < 2" for e
    using ok unfolding asserted_solution_def spec_total_assignment_iff
    by (simp add: stranger_instance_def)
  have "\<not> (ExamRoom m 0 = ExamRoom m 1 \<and> ExamTime m 0 = ExamTime m 1)"
    using ok unfolding asserted_solution_def spec_no_double_booking_iff
    by (simp add: stranger_instance_def)
  then show ?thesis
    using t [of 0] t [of 1] by auto
qed

lemma check_answer_mirror: "check_answer scenario_instance (sat mirror_model)"
proof -
  have "check_answer scenario_instance unknown"
    unfolding check_answer_unknown_iff
    using valid_scenario by (rule valid_instance_constraints)
  moreover have "asserted_solution scenario_instance scenario_room mirror_time"
    by code_simp
  ultimately show ?thesis
    unfolding mirror_model_def by (rule check_answer_model_of)
qed

lemma solve_mirror:
  "solve scenario_instance (sat mirror_model) =
     Inr (Satisfied [(0, 0, 2, 1), (1, 0, 0, 1), (2, 0, 1, 1)]
            [Timetable 0 [(0, 2, 0), (1, 0, 0)], Timetable 1 [(2, 1, 0)]] [])"
proof -
  have "map (\<lambda>e. (e, ExamRoom mirror_model e, ExamTime mirror_model e,
                 student_exam_capacity scenario_instance ! nat e))
          (py_range (number_of_exams scenario_instance)) =
        [(0, 0, 2, 1), (1, 0, 0, 1), (2, 0, 1, 1)]"
    by code_simp
  moreover have "student_lines scenario_instance mirror_model =
      [Timetable 0 [(0, 2, 0), (1, 0, 0)], Timetable 1 [(2, 1, 0)]]"
    by code_simp
  moreover have "students_with_many_exams scenario_instance mirror_model = []"
    by code_simp
  ultimately show ?thesis
    using solve_sat [OF check_answer_mirror] by simp
qed

lemma spec_solution_scenario: "spec_solution scenario_instance scenario_room scenario_time"
  by code_simp

lemma spec_solution_duplicate: "spec_solution duplicate_instance (\<lambda>e. 0) (\<lambda>e. 0)"
  by code_simp

lemma valid_duplicate: "valid_instance duplicate_instance"
  by code_simp

lemma studentCount_duplicate:
  "studentCount duplicate_instance 0 = 1 \<and> registration_lines duplicate_instance 0 = 2"
  by code_simp

lemma duplicate_room_refused:
  "\<not> (ExamRoom m 0 = 0 \<and> capacity_family duplicate_instance m)"
proof
  assume h: "ExamRoom m 0 = 0 \<and> capacity_family duplicate_instance m"
  have "0 \<in> set (py_range (number_of_exams duplicate_instance))"
    "0 \<in> set (py_range (number_of_rooms duplicate_instance))"
    by (simp_all add: duplicate_instance_def in_py_range)
  then have "room_fits duplicate_instance 0 0"
    using h unfolding capacity_family_iff by blast
  then show False
    by (simp add: room_fits_def duplicate_instance_def py_index_def py_position_def)
qed

lemma share_student_stranger:
  "share_student stranger_instance 0 1 \<and> \<not> share_student_in_range stranger_instance 0 1"
  by code_simp

lemma spec_solution_stranger:
  "\<not> spec_solution stranger_instance (ExamRoom stranger_model) (ExamTime stranger_model)"
  by code_simp

lemma read_file_long_number: "read_file cpython64 long_number_file = Inl ValueError"
proof -
  have "re_attribute cpython64 (ascii ''Number of students'')
      (ascii ''Number of students'' @ ascii '': '' @ replicate 4301 49 @ ascii ''\<newline>'') =
      Some (replicate 4301 49)"
    by (rule re_attribute_number)
      (simp_all add: is_digit_def is_space_def cpython64_def ascii_decimal_def ascii_isspace_def)
  moreover have "ascii ''Number of students: '' = ascii ''Number of students'' @ ascii '': ''"
    by (simp add: ascii_def)
  moreover have "py_int cpython64 (replicate 4301 49) = Inl ValueError"
    by (simp add: py_int_def cpython64_def)
  ultimately show ?thesis
    by (simp add: read_file_def parse_file_def read_attribute_def readline_def
        long_number_file_def)
qed

lemma read_file_huge_count: "read_file cpython64 huge_count_file = Inl OverflowError"
  by code_simp

lemma read_file_large_count: "read_file cpython64 large_count_file = Inl MemoryError"
  by code_simp

section \<open>The claims of the specification\<close>

text \<open>
  In what follows \<open>read_file py f = Inr inst\<close> says that \<open>inst\<close> is an instance the program
  has read from a file, which is where \<open>solve\<close> gets its instances from (lines 193 to 195).
  \<open>check_answer inst r\<close> says that \<open>solve\<close> builds its assertions on \<open>inst\<close> without an
  exception, which is so for every instance \<open>read_file\<close> returns
  (\<open>read_file_check_answer\<close>), and that \<open>r\<close> is an answer Z3 may give to them.
\<close>

text \<open>
  Claim C1 (soundness), as the program has it. For an instance the program has read,
  whenever \<open>solve\<close> prints \<open>Satisfied\<close>, the answer was \<open>sat\<close> with a model, the printed rows
  are the rooms and slots the model gives the exams \<open>0\<close> to \<open>number_of_exams - 1\<close>, and of
  this timetable: every exam has one room and one slot of the instance, the students of
  an exam are at most the capacity of its room, no two exams have the same room and slot,
  and two exams that share a student whose number is from \<open>0\<close> below
  \<open>number_of_students\<close> are more than one slot apart.
\<close>

theorem soundness:
  assumes "read_file py f = Inr inst" and "check_answer inst r"
    and "solve inst r = Inr (Satisfied rows lines warning)"
  shows "\<exists>m. r = sat m \<and>
           rows = map (\<lambda>e. (e, ExamRoom m e, ExamTime m e, registration_lines inst e))
                    (py_range (number_of_exams inst)) \<and>
           spec_total_assignment inst (ExamRoom m) (ExamTime m) \<and>
           spec_room_capacity inst (ExamRoom m) \<and>
           spec_no_double_booking inst (ExamRoom m) (ExamTime m) \<and>
           asserted_student_separation inst (ExamTime m)"
proof -
  obtain m where r: "r = sat m"
    using assms(3) solve_Satisfied_sat by blast
  have c: "check_answer inst (sat m)"
    using assms(2) r by simp
  have a: "asserted_solution inst (ExamRoom m) (ExamTime m)"
    using c by (rule check_answer_sound)
  have n: "student_exam_capacity inst ! nat e = registration_lines inst e"
    if "e \<in> set (py_range (number_of_exams inst))" for e
  proof -
    have e: "0 \<le> e" "e < number_of_exams inst"
      using that by (simp_all add: in_py_range)
    have "py_index (student_exam_capacity inst) e = Inr (student_exam_capacity inst ! nat e)"
      using e read_file_result [OF assms(1)] by (simp add: py_index_in_range)
    then show ?thesis
      using read_file_counts [OF assms(1) e] by simp
  qed
  have "rows = map (\<lambda>e. (e, ExamRoom m e, ExamTime m e, student_exam_capacity inst ! nat e))
                    (py_range (number_of_exams inst))"
    using assms(3) solve_sat [OF c] r by simp
  also have "\<dots> = map (\<lambda>e. (e, ExamRoom m e, ExamTime m e, registration_lines inst e))
                    (py_range (number_of_exams inst))"
    by (rule map_cong) (simp_all add: n)
  finally have rows: "rows =
      map (\<lambda>e. (e, ExamRoom m e, ExamTime m e, registration_lines inst e))
        (py_range (number_of_exams inst))" .
  have "spec_room_capacity inst (ExamRoom m)"
    using a unfolding asserted_solution_def
    by (blast intro: asserted_room_capacity_spec [OF assms(1)])
  then show ?thesis
    using r rows a unfolding asserted_solution_def by blast
qed

theorem soundness_witness:
  "read_file cpython64 scenario_file = Inr scenario_instance \<and>
   check_answer scenario_instance (sat scenario_model) \<and>
   solve scenario_instance (sat scenario_model) =
     Inr (Satisfied [(0, 0, 0, 1), (1, 0, 2, 1), (2, 0, 1, 1)]
            [Timetable 0 [(0, 0, 0), (1, 2, 0)], Timetable 1 [(2, 1, 0)]] []) \<and>
   spec_total_assignment scenario_instance (ExamRoom scenario_model) (ExamTime scenario_model) \<and>
   spec_room_capacity scenario_instance (ExamRoom scenario_model) \<and>
   spec_no_double_booking scenario_instance (ExamRoom scenario_model) (ExamTime scenario_model) \<and>
   asserted_student_separation scenario_instance (ExamTime scenario_model)"
proof -
  have "\<exists>m. sat scenario_model = sat m \<and>
          [(0, 0, 0, 1), (1, 0, 2, 1), (2, 0, 1, 1)] =
            map (\<lambda>e. (e, ExamRoom m e, ExamTime m e, registration_lines scenario_instance e))
              (py_range (number_of_exams scenario_instance)) \<and>
          spec_total_assignment scenario_instance (ExamRoom m) (ExamTime m) \<and>
          spec_room_capacity scenario_instance (ExamRoom m) \<and>
          spec_no_double_booking scenario_instance (ExamRoom m) (ExamTime m) \<and>
          asserted_student_separation scenario_instance (ExamTime m)"
    using read_file_scenario check_answer_scenario solve_scenario by (rule soundness)
  then have
    "spec_total_assignment scenario_instance (ExamRoom scenario_model) (ExamTime scenario_model) \<and>
     spec_room_capacity scenario_instance (ExamRoom scenario_model) \<and>
     spec_no_double_booking scenario_instance (ExamRoom scenario_model)
       (ExamTime scenario_model) \<and>
     asserted_student_separation scenario_instance (ExamTime scenario_model)"
    by blast
  then show ?thesis
    using read_file_scenario check_answer_scenario solve_scenario by simp
qed

text \<open>
  The claim as the specification words it fails on the file that registers student 1 for
  both exams where the only student is student 0: the file is read, the timetable with
  the two exams in slots 0 and 1 satisfies the assertions, and \<open>solve\<close> prints \<open>Satisfied\<close>
  for it, though the two exams share a student and are one slot apart.
\<close>

theorem soundness_counterexample:
  "read_file cpython64 stranger_file = Inr stranger_instance \<and>
   check_answer stranger_instance (sat stranger_model) \<and>
   solve stranger_instance (sat stranger_model) =
     Inr (Satisfied [(0, 0, 0, 1), (1, 0, 1, 1)] [NotScheduled 0] []) \<and>
   share_student stranger_instance 0 1 \<and>
   ExamTime stranger_model 0 = 0 \<and> ExamTime stranger_model 1 = 1 \<and>
   \<not> spec_student_separation stranger_instance (ExamTime stranger_model) \<and>
   \<not> spec_solution stranger_instance (ExamRoom stranger_model) (ExamTime stranger_model)"
proof -
  have "ExamTime stranger_model 0 = 0" "ExamTime stranger_model 1 = 1"
    by (simp_all add: stranger_model_def model_of_def adjacent_time_def)
  moreover have "\<not> spec_student_separation stranger_instance (ExamTime stranger_model)"
    by code_simp
  ultimately show ?thesis
    using read_file_stranger check_answer_stranger solve_stranger share_student_stranger
      spec_solution_stranger
    by simp
qed

text \<open>
  Claim C2 (completeness), as the program has it. For an instance the program has read
  in which no registration is listed twice: when some timetable satisfies the four
  families, Z3 cannot answer \<open>unsat\<close>, and when it decides, that is, answers \<open>sat\<close> or
  \<open>unsat\<close>, \<open>solve\<close> prints \<open>Satisfied\<close>.
\<close>

theorem completeness:
  assumes "read_file py f = Inr inst" and "distinct (exams_to_students inst)"
    and "spec_solution inst room time"
    and "check_answer inst r" and "r \<noteq> unknown"
  shows "\<not> check_answer inst unsat \<and>
         (\<exists>rows lines warning. solve inst r = Inr (Satisfied rows lines warning))"
proof -
  have "asserted_solution inst room time"
    using assms(1-3) by (rule spec_solution_asserted)
  with assms(4) have "check_answer inst (sat (model_of inst room time))"
    by (rule check_answer_model_of)
  then have u: "\<not> check_answer inst unsat"
    unfolding check_answer_unsat_iff by blast
  then have "r \<noteq> unsat"
    using assms(4) by blast
  then obtain m where r: "r = sat m"
    using assms(5) by (cases r) auto
  show ?thesis
    using solve_sat [of inst m] assms(4) r u by blast
qed

theorem completeness_witness:
  "read_file cpython64 scenario_file = Inr scenario_instance \<and>
   distinct (exams_to_students scenario_instance) \<and>
   valid_instance scenario_instance \<and>
   spec_solution scenario_instance scenario_room scenario_time \<and>
   check_answer scenario_instance (sat scenario_model) \<and>
   sat scenario_model \<noteq> unknown \<and>
   \<not> check_answer scenario_instance unsat \<and>
   (\<exists>rows lines warning.
      solve scenario_instance (sat scenario_model) = Inr (Satisfied rows lines warning))"
proof -
  have d: "distinct (exams_to_students scenario_instance)"
    by (simp add: scenario_instance_def)
  show ?thesis
    using completeness [OF read_file_scenario d spec_solution_scenario check_answer_scenario]
      read_file_scenario d valid_scenario spec_solution_scenario check_answer_scenario
    by simp
qed

text \<open>
  The claim as the specification words it fails on the exam whose only student fills the
  only room and is registered twice: the instance is valid, the timetable with the exam
  in room 0 and slot 0 satisfies the four families, since the exam has one student, but
  the program counts two, no interpretation satisfies the assertions, and \<open>solve\<close> prints
  \<open>Unsatisfied\<close> on the answer \<open>unsat\<close>.
\<close>

theorem completeness_counterexample:
  "read_file cpython64 duplicate_file = Inr duplicate_instance \<and>
   valid_instance duplicate_instance \<and>
   spec_solution duplicate_instance (\<lambda>e. 0) (\<lambda>e. 0) \<and>
   (\<nexists>m. check_answer duplicate_instance (sat m)) \<and>
   check_answer duplicate_instance unsat \<and>
   solve duplicate_instance unsat = Inr Unsatisfied"
proof -
  have u: "check_answer duplicate_instance unsat"
    unfolding check_answer_unsat_iff
    using check_answer_duplicate_unknown [unfolded check_answer_unknown_iff] duplicate_no_model
    by blast
  obtain cs where "constraints duplicate_instance = Inr cs"
    using check_answer_duplicate_unknown unfolding check_answer_unknown_iff by blast
  then have "solve duplicate_instance unsat = Inr Unsatisfied"
    by (rule solve_not_sat) simp
  then show ?thesis
    using read_file_duplicate valid_duplicate spec_solution_duplicate duplicate_no_model u
    by simp
qed

text \<open>
  Claim C3 (separation boundary), as the program has it. Two different exams that share
  a student whose number is from \<open>0\<close> below \<open>number_of_students\<close> are more than one slot
  apart in every model Z3 may return. And when a timetable meets the other assertions
  and keeps every other two exams with such a common student apart, it is accepted
  exactly when these two exams are more than one slot apart: slots \<open>t\<close> and \<open>t + 1\<close>, or
  equal slots, are rejected, slots \<open>t\<close> and \<open>t + 2\<close> are accepted.
\<close>

theorem separation_boundary:
  assumes "check_answer inst r"
    and "e1 \<in> set (py_range (number_of_exams inst))"
    and "e2 \<in> set (py_range (number_of_exams inst))"
    and "e1 \<noteq> e2" and "share_student_in_range inst e1 e2"
  shows "(check_answer inst (sat m) \<longrightarrow> 1 < \<bar>ExamTime m e1 - ExamTime m e2\<bar>) \<and>
         (spec_total_assignment inst room time \<and> asserted_room_capacity inst room \<and>
          spec_no_double_booking inst room time \<and>
          (\<forall>a \<in> set (py_range (number_of_exams inst)).
           \<forall>b \<in> set (py_range (number_of_exams inst)).
             a \<noteq> b \<and> share_student_in_range inst a b \<and>
             (a, b) \<noteq> (e1, e2) \<and> (a, b) \<noteq> (e2, e1) \<longrightarrow>
             1 < \<bar>time a - time b\<bar>) \<longrightarrow>
            (check_answer inst (sat (model_of inst room time)) \<longleftrightarrow>
             1 < \<bar>time e1 - time e2\<bar>))"
proof
  show "check_answer inst (sat m) \<longrightarrow> 1 < \<bar>ExamTime m e1 - ExamTime m e2\<bar>"
  proof
    assume "check_answer inst (sat m)"
    then have "asserted_student_separation inst (ExamTime m)"
      using check_answer_sound by (simp add: asserted_solution_def)
    then show "1 < \<bar>ExamTime m e1 - ExamTime m e2\<bar>"
      using assms(2-5) unfolding asserted_student_separation_def by blast
  qed
next
  show "spec_total_assignment inst room time \<and> asserted_room_capacity inst room \<and>
          spec_no_double_booking inst room time \<and>
          (\<forall>a \<in> set (py_range (number_of_exams inst)).
           \<forall>b \<in> set (py_range (number_of_exams inst)).
             a \<noteq> b \<and> share_student_in_range inst a b \<and>
             (a, b) \<noteq> (e1, e2) \<and> (a, b) \<noteq> (e2, e1) \<longrightarrow>
             1 < \<bar>time a - time b\<bar>) \<longrightarrow>
            (check_answer inst (sat (model_of inst room time)) \<longleftrightarrow>
             1 < \<bar>time e1 - time e2\<bar>)"
  proof
    assume h: "spec_total_assignment inst room time \<and> asserted_room_capacity inst room \<and>
          spec_no_double_booking inst room time \<and>
          (\<forall>a \<in> set (py_range (number_of_exams inst)).
           \<forall>b \<in> set (py_range (number_of_exams inst)).
             a \<noteq> b \<and> share_student_in_range inst a b \<and>
             (a, b) \<noteq> (e1, e2) \<and> (a, b) \<noteq> (e2, e1) \<longrightarrow>
             1 < \<bar>time a - time b\<bar>)"
    then have others: "a \<noteq> b \<and> share_student_in_range inst a b \<and> (a, b) \<noteq> (e1, e2) \<and>
        (a, b) \<noteq> (e2, e1) \<longrightarrow> 1 < \<bar>time a - time b\<bar>"
      if "a \<in> set (py_range (number_of_exams inst))"
        "b \<in> set (py_range (number_of_exams inst))" for a b
      using that by blast
    show "check_answer inst (sat (model_of inst room time)) \<longleftrightarrow> 1 < \<bar>time e1 - time e2\<bar>"
    proof
      assume "check_answer inst (sat (model_of inst room time))"
      then have "asserted_solution inst (ExamRoom (model_of inst room time))
                   (ExamTime (model_of inst room time))"
        by (rule check_answer_sound)
      then have "asserted_student_separation inst time"
        by (simp add: asserted_solution_def model_of_def)
      then show "1 < \<bar>time e1 - time e2\<bar>"
        using assms(2-5) unfolding asserted_student_separation_def by blast
    next
      assume gap: "1 < \<bar>time e1 - time e2\<bar>"
      have "asserted_student_separation inst time"
        unfolding asserted_student_separation_def
      proof (intro ballI impI)
        fix a b
        assume ab: "a \<in> set (py_range (number_of_exams inst))"
          "b \<in> set (py_range (number_of_exams inst))"
          and s: "a \<noteq> b \<and> share_student_in_range inst a b"
        show "1 < \<bar>time a - time b\<bar>"
        proof (cases "(a, b) = (e1, e2) \<or> (a, b) = (e2, e1)")
          case True
          then show ?thesis using gap by auto
        next
          case False
          then show ?thesis using others [OF ab] s by blast
        qed
      qed
      then have "asserted_solution inst room time"
        using h by (simp add: asserted_solution_def)
      with assms(1) show "check_answer inst (sat (model_of inst room time))"
        by (rule check_answer_model_of)
    qed
  qed
qed

theorem separation_boundary_witness:
  "check_answer scenario_instance (sat scenario_model) \<and>
   0 \<in> set (py_range (number_of_exams scenario_instance)) \<and>
   1 \<in> set (py_range (number_of_exams scenario_instance)) \<and>
   share_student_in_range scenario_instance 0 1 \<and>
   scenario_time 0 = 0 \<and> scenario_time 1 = 2 \<and>
   check_answer scenario_instance
     (sat (model_of scenario_instance scenario_room scenario_time)) \<and>
   adjacent_time 0 = 0 \<and> adjacent_time 1 = 1 \<and>
   \<not> check_answer scenario_instance
       (sat (model_of scenario_instance scenario_room adjacent_time))"
proof -
  have e: "0 \<in> set (py_range (number_of_exams scenario_instance))"
    "1 \<in> set (py_range (number_of_exams scenario_instance))"
    by (simp_all add: scenario_instance_def in_py_range)
  have s: "share_student_in_range scenario_instance 0 1"
    by code_simp
  have t: "scenario_time 0 = 0" "scenario_time 1 = 2" "adjacent_time 0 = 0" "adjacent_time 1 = 1"
    by (simp_all add: scenario_time_def adjacent_time_def)
  have far: "spec_total_assignment scenario_instance scenario_room scenario_time \<and>
      asserted_room_capacity scenario_instance scenario_room \<and>
      spec_no_double_booking scenario_instance scenario_room scenario_time \<and>
      (\<forall>a \<in> set (py_range (number_of_exams scenario_instance)).
       \<forall>b \<in> set (py_range (number_of_exams scenario_instance)).
         a \<noteq> b \<and> share_student_in_range scenario_instance a b \<and>
         (a, b) \<noteq> (0, 1) \<and> (a, b) \<noteq> (1, 0) \<longrightarrow>
         1 < \<bar>scenario_time a - scenario_time b\<bar>)"
    by code_simp
  have near: "spec_total_assignment scenario_instance scenario_room adjacent_time \<and>
      asserted_room_capacity scenario_instance scenario_room \<and>
      spec_no_double_booking scenario_instance scenario_room adjacent_time \<and>
      (\<forall>a \<in> set (py_range (number_of_exams scenario_instance)).
       \<forall>b \<in> set (py_range (number_of_exams scenario_instance)).
         a \<noteq> b \<and> share_student_in_range scenario_instance a b \<and>
         (a, b) \<noteq> (0, 1) \<and> (a, b) \<noteq> (1, 0) \<longrightarrow>
         1 < \<bar>adjacent_time a - adjacent_time b\<bar>)"
    by code_simp
  have "check_answer scenario_instance
     (sat (model_of scenario_instance scenario_room scenario_time))"
    using separation_boundary [OF check_answer_scenario e _ s,
        of scenario_model scenario_room scenario_time] far t
    by simp
  moreover have "\<not> check_answer scenario_instance
       (sat (model_of scenario_instance scenario_room adjacent_time))"
    using separation_boundary [OF check_answer_scenario e _ s,
        of scenario_model scenario_room adjacent_time] near t
    by simp
  ultimately show ?thesis
    using check_answer_scenario e s t by simp
qed

text \<open>
  The claim as the specification words it, for any two exams that share a registered
  student, fails on the file that registers student 1 for exams 0 and 1 where the only
  student is student 0: the timetable with the two exams in slots 0 and 1 is accepted,
  and no model Z3 may return has them more than one slot apart.
\<close>

theorem separation_boundary_counterexample:
  "0 \<in> set (py_range (number_of_exams stranger_instance)) \<and>
   1 \<in> set (py_range (number_of_exams stranger_instance)) \<and>
   share_student stranger_instance 0 1 \<and>
   adjacent_time 0 = 0 \<and> adjacent_time 1 = 0 + 1 \<and>
   check_answer stranger_instance
     (sat (model_of stranger_instance scenario_room adjacent_time)) \<and>
   (\<nexists>m. check_answer stranger_instance (sat m) \<and> 1 < \<bar>ExamTime m 0 - ExamTime m 1\<bar>)"
proof -
  have "0 \<in> set (py_range (number_of_exams stranger_instance))"
    "1 \<in> set (py_range (number_of_exams stranger_instance))"
    by (simp_all add: stranger_instance_def in_py_range)
  moreover have "\<nexists>m. check_answer stranger_instance (sat m) \<and>
      1 < \<bar>ExamTime m 0 - ExamTime m 1\<bar>"
    using stranger_adjacent by fastforce
  ultimately show ?thesis
    using check_answer_stranger share_student_stranger
    by (simp add: stranger_model_def adjacent_time_def)
qed

text \<open>
  Claim C4 (capacity boundary), as the program has it. For an instance the program has
  read, an exam \<open>e\<close> and a room \<open>r\<close> of it: the number the program compares with the
  capacity of \<open>r\<close> is the number of registrations of \<open>e\<close> in the list; the capacity
  assertions admit \<open>e\<close> in \<open>r\<close> exactly when this number is at most the capacity, and in
  every model Z3 may return \<open>e\<close> is in \<open>r\<close> only if it is. So an exam with as many
  registrations as the room holds may have the room, and one with a registration more
  never has it. The students of the exam are at most its registrations, and as many when
  no registration is listed twice.
\<close>

theorem capacity_boundary:
  assumes "read_file py f = Inr inst"
    and "e \<in> set (py_range (number_of_exams inst))"
    and "r \<in> set (py_range (number_of_rooms inst))"
  shows "\<exists>capacity.
           py_index (room_capacities inst) r = Inr capacity \<and>
           py_index (student_exam_capacity inst) e = Inr (registration_lines inst e) \<and>
           ((\<exists>m. ExamRoom m e = r \<and> capacity_family inst m) \<longleftrightarrow>
              registration_lines inst e \<le> capacity) \<and>
           (\<forall>m. check_answer inst (sat m) \<and> ExamRoom m e = r \<longrightarrow>
              registration_lines inst e \<le> capacity) \<and>
           studentCount inst e \<le> registration_lines inst e \<and>
           (distinct (exams_to_students inst) \<longrightarrow>
              studentCount inst e = registration_lines inst e)"
proof -
  obtain cs where cs: "constraints inst = Inr cs"
    using read_file_check_answer [OF assms(1)] check_answer_constraints by blast
  then obtain caps where caps: "capacity_constraints inst = Inr caps"
    using constraints_capacity_constraints by blast
  obtain students capacity where
    i: "py_index (student_exam_capacity inst) e = Inr students"
       "py_index (room_capacities inst) r = Inr capacity"
    using capacity_constraints_index [OF caps assms(2,3)] by blast
  have lines: "py_index (student_exam_capacity inst) e = Inr (registration_lines inst e)"
    using read_file_counts [OF assms(1), of e] assms(2) by (simp add: in_py_range)
  have fits: "room_fits inst e r \<longleftrightarrow> registration_lines inst e \<le> capacity"
    using i(2) lines by (simp add: room_fits_def)
  have here: "registration_lines inst e \<le> capacity"
    if "check_answer inst (sat m) \<and> ExamRoom m e = r" for m
  proof -
    have "asserted_room_capacity inst (ExamRoom m)"
      using check_answer_sound [of inst m] that by (simp add: asserted_solution_def)
    then have "room_fits inst e (ExamRoom m e)"
      using assms(2) unfolding asserted_room_capacity_def by blast
    then show ?thesis
      using fits that by simp
  qed
  have "(\<exists>m. ExamRoom m e = r \<and> capacity_family inst m) \<longleftrightarrow>
      registration_lines inst e \<le> capacity"
  proof
    assume "\<exists>m. ExamRoom m e = r \<and> capacity_family inst m"
    then obtain m where "ExamRoom m e = r" "capacity_family inst m"
      by blast
    then have "room_fits inst e r"
      using assms(2,3) unfolding capacity_family_iff by blast
    then show "registration_lines inst e \<le> capacity"
      using fits by simp
  next
    assume le: "registration_lines inst e \<le> capacity"
    let ?m = "model_of inst (\<lambda>x. if x = e then r else - 1) (\<lambda>x. 0)"
    have "ExamRoom ?m ex = rm \<longrightarrow> room_fits inst ex rm"
      if "ex \<in> set (py_range (number_of_exams inst))"
        "rm \<in> set (py_range (number_of_rooms inst))" for ex rm
      using that le fits by (auto simp: model_of_def in_py_range)
    then have "capacity_family inst ?m"
      unfolding capacity_family_iff using caps by blast
    moreover have "ExamRoom ?m e = r"
      by (simp add: model_of_def)
    ultimately show "\<exists>m. ExamRoom m e = r \<and> capacity_family inst m"
      by blast
  qed
  then show ?thesis
    using i(2) lines here studentCount_le_lines [of inst e] studentCount_distinct [of inst e]
    by blast
qed

theorem capacity_boundary_witness:
  "read_file cpython64 full_room_file = Inr full_room_instance \<and>
   0 \<in> set (py_range (number_of_exams full_room_instance)) \<and>
   0 \<in> set (py_range (number_of_rooms full_room_instance)) \<and>
   py_index (room_capacities full_room_instance) 0 = Inr 1 \<and>
   registration_lines full_room_instance 0 = 1 \<and>
   studentCount full_room_instance 0 = 1 \<and>
   (\<exists>m. ExamRoom m 0 = 0 \<and> capacity_family full_room_instance m) \<and>
   check_answer full_room_instance (sat full_room_model) \<and>
   ExamRoom full_room_model 0 = 0 \<and>
   read_file cpython64 duplicate_file = Inr duplicate_instance \<and>
   py_index (room_capacities duplicate_instance) 0 = Inr 1 \<and>
   registration_lines duplicate_instance 0 = 1 + 1 \<and>
   (\<nexists>m. ExamRoom m 0 = 0 \<and> capacity_family duplicate_instance m)"
proof -
  have e: "0 \<in> set (py_range (number_of_exams full_room_instance))"
    and r: "0 \<in> set (py_range (number_of_rooms full_room_instance))"
    by (simp_all add: full_room_instance_def in_py_range)
  have e': "0 \<in> set (py_range (number_of_exams duplicate_instance))"
    and r': "0 \<in> set (py_range (number_of_rooms duplicate_instance))"
    by (simp_all add: duplicate_instance_def in_py_range)
  have i: "py_index (room_capacities full_room_instance) 0 = Inr 1"
    "py_index (room_capacities duplicate_instance) 0 = Inr 1"
    by (simp_all add: full_room_instance_def duplicate_instance_def py_index_def
        py_position_def)
  have n: "registration_lines full_room_instance 0 = 1"
    "studentCount full_room_instance 0 = 1"
    "registration_lines duplicate_instance 0 = 1 + 1"
    by code_simp+
  have "\<exists>m. ExamRoom m 0 = 0 \<and> capacity_family full_room_instance m"
    using capacity_boundary [OF read_file_full_room e r] i(1) n(1) by auto
  moreover have "\<nexists>m. ExamRoom m 0 = 0 \<and> capacity_family duplicate_instance m"
    using capacity_boundary [OF read_file_duplicate e' r'] i(2) n(3) by auto
  moreover have "ExamRoom full_room_model 0 = 0"
    by (simp add: full_room_model_def model_of_def)
  ultimately show ?thesis
    using read_file_full_room read_file_duplicate check_answer_full_room e r i n by simp
qed

text \<open>
  The claim as the specification words it, with the number of students of the exam,
  fails on the exam whose only student fills the only room and is registered twice: the
  exam has one student and the room holds one, yet the capacity assertions admit no
  interpretation with the exam in the room, and the instance has no model.
\<close>

theorem capacity_boundary_counterexample:
  "read_file cpython64 duplicate_file = Inr duplicate_instance \<and>
   exams_to_students duplicate_instance = [(0, 0), (0, 0)] \<and>
   studentCount duplicate_instance 0 = 1 \<and>
   py_index (room_capacities duplicate_instance) 0 = Inr 1 \<and>
   (\<nexists>m. ExamRoom m 0 = 0 \<and> capacity_family duplicate_instance m) \<and>
   (\<nexists>m. check_answer duplicate_instance (sat m))"
proof -
  have "py_index (room_capacities duplicate_instance) 0 = Inr 1"
    "exams_to_students duplicate_instance = [(0, 0), (0, 0)]"
    by (simp_all add: duplicate_instance_def py_index_def py_position_def)
  then show ?thesis
    using read_file_duplicate studentCount_duplicate duplicate_room_refused duplicate_no_model
    by simp
qed

text \<open>
  Claim C5 (an undecided check is not reported as infeasible). The program does not keep
  it: every answer but \<open>sat\<close> goes to the \<open>else\<close> branch of line 181. On the scenario
  instance, which has a model, the answer \<open>unknown\<close> is an answer Z3 may give, and \<open>solve\<close>
  prints \<open>Unsatisfied\<close> for it.
\<close>

theorem unknown_printed_as_unsatisfied:
  "check_answer scenario_instance (sat scenario_model) \<and>
   check_answer scenario_instance unknown \<and>
   solve scenario_instance unknown = Inr Unsatisfied"
proof -
  have u: "check_answer scenario_instance unknown"
    unfolding check_answer_unknown_iff
    using valid_scenario by (rule valid_instance_constraints)
  then obtain cs where "constraints scenario_instance = Inr cs"
    unfolding check_answer_unknown_iff by blast
  then have "solve scenario_instance unknown = Inr Unsatisfied"
    by (rule solve_not_sat) simp
  then show ?thesis
    using u check_answer_scenario by simp
qed

text \<open>
  Claim C6 (validation), as the program has it. There is no error of its own for an
  invalid instance, and no number is checked. What \<open>read_file\<close> does is this. A line that
  does not match, as one with a minus sign, raises the generic \<open>Exception\<close>, and a number
  with more digits than \<open>int\<close> takes raises \<open>ValueError\<close>; so no number read is negative.
  When the lines are read, a number of exams that is no length of a list raises
  \<open>OverflowError\<close>, and one for which the memory is not there \<open>MemoryError\<close>. Otherwise
  \<open>read_file\<close> raises exactly when a registration names an exam at or beyond
  \<open>number_of_exams\<close>, and what it raises is Python's \<open>IndexError\<close>. The student of a
  registration is not checked.
\<close>

theorem read_file_validation:
  "case parse_file py f of
     Inl err \<Rightarrow>
       (err = Exception \<or> err = ValueError \<and> 0 < int_max_str_digits py) \<and>
       read_file py f = Inl err
   | Inr inst \<Rightarrow>
       0 \<le> number_of_students inst \<and> 0 \<le> number_of_exams inst \<and>
       0 \<le> number_of_slots inst \<and> 0 \<le> number_of_rooms inst \<and>
       (\<forall>(e, s) \<in> set (exams_to_students inst). 0 \<le> e \<and> 0 \<le> s) \<and>
       (if maxsize py < number_of_exams inst then read_file py f = Inl OverflowError
        else if \<not> allocates py (number_of_exams inst) then read_file py f = Inl MemoryError
        else if \<exists>(e, s) \<in> set (exams_to_students inst). number_of_exams inst \<le> e
        then read_file py f = Inl IndexError
        else \<exists>counts. read_file py f = Inr (inst\<lparr>student_exam_capacity := counts\<rparr>))"
proof (cases "parse_file py f")
  case (Inl err)
  then show ?thesis
    using parse_file_error [OF Inl] by (simp add: read_file_def)
next
  case (Inr inst)
  note p = parse_file_result [OF Inr]
  let ?c = "replicate (nat (number_of_exams inst)) (0::int)"
  have ids: "\<forall>(e, s) \<in> set (exams_to_students inst). 0 \<le> e \<and> 0 \<le> s"
    using p by blast
  have pos: "py_position (length ?c) e =
      (if e < number_of_exams inst then Inr (nat e) else Inl IndexError)"
    if "(e, s) \<in> set (exams_to_students inst)" for e s
    using that ids p by (auto simp: py_position_nonneg)
  have rf: "read_file py f = count_registrations py inst"
    using Inr by (simp add: read_file_def)
  have last: "if maxsize py < number_of_exams inst then read_file py f = Inl OverflowError
        else if \<not> allocates py (number_of_exams inst) then read_file py f = Inl MemoryError
        else if \<exists>(e, s) \<in> set (exams_to_students inst). number_of_exams inst \<le> e
        then read_file py f = Inl IndexError
        else \<exists>counts. read_file py f = Inr (inst\<lparr>student_exam_capacity := counts\<rparr>)"
  proof (cases "maxsize py < number_of_exams inst \<or> \<not> allocates py (number_of_exams inst)")
    case True
    then show ?thesis
      using rf p by (auto simp: count_registrations_def py_zeros_def)
  next
    case False
    then have z: "py_zeros py (number_of_exams inst) = Inr ?c"
      using p by (simp add: py_zeros_def)
    have rc: "read_file py f =
        (case count_students ?c (exams_to_students inst) of
           Inl e \<Rightarrow> Inl e
         | Inr counts \<Rightarrow> Inr (inst\<lparr>student_exam_capacity := counts\<rparr>))"
      unfolding rf count_registrations_def z by simp
    show ?thesis
    proof (cases "\<exists>(e, s) \<in> set (exams_to_students inst). number_of_exams inst \<le> e")
      case True
      then obtain e s where es: "(e, s) \<in> set (exams_to_students inst)"
        "number_of_exams inst \<le> e"
        by blast
      have "py_position (length ?c) e = Inl IndexError"
        using pos [OF es(1)] es(2) by simp
      then have "count_students ?c (exams_to_students inst) = Inl IndexError"
        using es(1) by (rule count_students_raises [rotated])
      then show ?thesis
        using True False rc by simp
    next
      case none: False
      have "\<exists>d. count_students ?c (exams_to_students inst) = Inr d"
      proof (cases "count_students ?c (exams_to_students inst)")
        case (Inl err)
        then obtain e s where es: "(e, s) \<in> set (exams_to_students inst)"
          "py_position (length ?c) e = Inl IndexError"
          using count_students_error [OF Inl] by blast
        then have "number_of_exams inst \<le> e"
          using pos [OF es(1)] by (simp split: if_splits)
        then show ?thesis
          using none es(1) by blast
      next
        case (Inr d)
        then show ?thesis by blast
      qed
      then show ?thesis
        using none False rc by auto
    qed
  qed
  show ?thesis
    using Inr p last by simp
qed

theorem read_file_validation_witness:
  "parse_file cpython64 stray_exam_file = Inr stray_exam_parsed \<and>
   (2, 0) \<in> set (exams_to_students stray_exam_parsed) \<and>
   number_of_exams stray_exam_parsed \<le> 2 \<and>
   read_file cpython64 stray_exam_file = Inl IndexError \<and>
   parse_file cpython64 negative_count_file = Inl Exception \<and>
   read_file cpython64 negative_count_file = Inl Exception \<and>
   read_file cpython64 long_number_file = Inl ValueError \<and>
   read_file cpython64 huge_count_file = Inl OverflowError \<and>
   read_file cpython64 large_count_file = Inl MemoryError"
proof -
  have h: "(2, 0) \<in> set (exams_to_students stray_exam_parsed)"
    "number_of_exams stray_exam_parsed \<le> 2"
    by (simp_all add: stray_exam_parsed_def)
  then have "\<exists>(e, s) \<in> set (exams_to_students stray_exam_parsed).
      number_of_exams stray_exam_parsed \<le> e"
    by blast
  moreover have "\<not> maxsize cpython64 < number_of_exams stray_exam_parsed"
    "allocates cpython64 (number_of_exams stray_exam_parsed)"
    by (simp_all add: cpython64_def stray_exam_parsed_def)
  ultimately have "read_file cpython64 stray_exam_file = Inl IndexError"
    using read_file_validation [of cpython64 stray_exam_file] parse_file_stray_exam by simp
  moreover have "read_file cpython64 negative_count_file = Inl Exception"
    using read_file_validation [of cpython64 negative_count_file] parse_file_negative_count
    by simp
  ultimately show ?thesis
    using h parse_file_stray_exam parse_file_negative_count read_file_long_number
      read_file_huge_count read_file_large_count
    by simp
qed

text \<open>
  The claim as the specification words it fails on a file that registers student 1 where
  the only student is student 0: the file is read, Z3 cannot answer \<open>unsat\<close>, and on the
  answer \<open>sat\<close> the program prints \<open>Satisfied\<close>, with the two exams of student 1 in
  adjacent slots whatever the model is.
\<close>

theorem read_file_validation_counterexample:
  "read_file cpython64 stranger_file = Inr stranger_instance \<and>
   number_of_students stranger_instance = 1 \<and>
   exams_to_students stranger_instance = [(0, 1), (1, 1)] \<and>
   check_answer stranger_instance (sat stranger_model) \<and>
   solve stranger_instance (sat stranger_model) =
     Inr (Satisfied [(0, 0, 0, 1), (1, 0, 1, 1)] [NotScheduled 0] []) \<and>
   \<not> check_answer stranger_instance unsat \<and>
   (\<nexists>m. check_answer stranger_instance (sat m) \<and> 1 < \<bar>ExamTime m 0 - ExamTime m 1\<bar>)"
proof -
  have "\<not> check_answer stranger_instance unsat"
    unfolding check_answer_unsat_iff using check_answer_stranger by blast
  moreover have "\<nexists>m. check_answer stranger_instance (sat m) \<and>
      1 < \<bar>ExamTime m 0 - ExamTime m 1\<bar>"
    using stranger_adjacent by fastforce
  ultimately show ?thesis
    using read_file_stranger check_answer_stranger solve_stranger
    by (simp add: stranger_instance_def)
qed

text \<open>
  Claim C7 (a registration written twice), as the program has it. Writing a registration
  of the list once more raises no exception in \<open>read_file\<close>, lets \<open>solve\<close> raise only where
  it raised before, and asserts no new fact \<open>ExamStudent\<close>; but it adds one to the students
  counted for that exam. So every model Z3 may return for the instance with the duplicate
  is one for the instance without it, and not the other way round.
\<close>

theorem duplicate_registration:
  assumes "exams_to_students inst = xs @ ys" and "(e, s) \<in> set (xs @ ys)"
    and "count_registrations py inst = Inr a"
  shows "\<exists>a'. count_registrations py (inst\<lparr>exams_to_students := xs @ (e, s) # ys\<rparr>) = Inr a' \<and>
           py_increment (student_exam_capacity a) e = Inr (student_exam_capacity a') \<and>
           (\<forall>r. (\<exists>err. solve a' r = Inl err) \<longleftrightarrow> (\<exists>err. solve a r = Inl err)) \<and>
           (\<forall>m. models m (student_facts a') \<longleftrightarrow> models m (student_facts a)) \<and>
           (\<forall>m. check_answer a' (sat m) \<longrightarrow> check_answer a (sat m))"
proof -
  let ?inst' = "inst\<lparr>exams_to_students := xs @ (e, s) # ys\<rparr>"
  let ?c = "replicate (nat (number_of_exams inst)) (0::int)"
  obtain d where z: "py_zeros py (number_of_exams inst) = Inr ?c"
    and d: "count_students ?c (xs @ ys) = Inr d"
    and a: "a = inst\<lparr>student_exam_capacity := d\<rparr>"
    using assms(3,1) unfolding count_registrations_Inr_iff by auto
  obtain d1 where d1: "count_students ?c (xs @ (e, s) # ys) = Inr d1"
    and inc: "py_increment d e = Inr d1"
    using count_students_duplicate [OF d assms(2)] by blast
  let ?a' = "?inst'\<lparr>student_exam_capacity := d1\<rparr>"
  have reg: "count_registrations py ?inst' = Inr ?a'"
    using z d1 by (simp add: count_registrations_def)
  have inc': "py_increment (student_exam_capacity a) e = Inr (student_exam_capacity ?a')"
    using inc a by simp
  have facts: "models m (student_facts ?a') \<longleftrightarrow> models m (student_facts a)" for m
    unfolding models_student_facts using a assms(1,2) by auto
  have len: "length d1 = length d"
    using inc by (rule py_increment_length)
  have def: "(\<exists>cs. constraints ?a' = Inr cs) \<longleftrightarrow> (\<exists>cs. constraints a = Inr cs)"
    by (rule constraints_defined_cong) (simp_all add: a len)
  have raises: "(\<exists>err. solve ?a' r = Inl err) \<longleftrightarrow> (\<exists>err. solve a r = Inl err)" for r
    by (rule solve_raises_cong) (simp_all add: a len)
  have mono: "check_answer ?a' (sat m) \<longrightarrow> check_answer a (sat m)" for m
  proof
    assume c: "check_answer ?a' (sat m)"
    then obtain cs' where cs': "constraints ?a' = Inr cs'" and m': "models m cs'"
      unfolding check_answer_sat_iff by blast
    obtain cs where cs: "constraints a = Inr cs"
      using def cs' by blast
    have r: "range_constraints ?a' = range_constraints a"
      by (simp add: range_constraints_def a)
    have fits: "room_fits a ex rm" if "room_fits ?a' ex rm" for ex rm
      using inc' _ that by (rule room_fits_increment) (simp add: a)
    have "models m cs"
      using m' facts [of m] fits
      unfolding models_constraints [OF cs] models_constraints [OF cs'] r
      by (auto simp: a)
    then show "check_answer a (sat m)"
      unfolding check_answer_sat_iff using cs by blast
  qed
  show ?thesis
    using reg inc' facts raises mono by blast
qed

theorem duplicate_registration_witness:
  "exams_to_students (full_room_instance\<lparr>student_exam_capacity := []\<rparr>) = [] @ [(0, 0)] \<and>
   (0, 0) \<in> set ([] @ [(0, 0)]) \<and>
   count_registrations cpython64 (full_room_instance\<lparr>student_exam_capacity := []\<rparr>) =
     Inr full_room_instance \<and>
   count_registrations cpython64
     (full_room_instance\<lparr>student_exam_capacity := [], exams_to_students := [] @ (0, 0) # [(0, 0)]\<rparr>) =
     Inr duplicate_instance \<and>
   py_increment (student_exam_capacity full_room_instance) 0 =
     Inr (student_exam_capacity duplicate_instance) \<and>
   \<not> check_answer duplicate_instance (sat full_room_model) \<and>
   check_answer full_room_instance (sat full_room_model)"
proof -
  let ?parsed = "full_room_instance\<lparr>student_exam_capacity := []\<rparr>"
  have h: "exams_to_students ?parsed = [] @ [(0, 0)]" "(0, 0) \<in> set ([] @ [(0, 0)])"
    by (simp_all add: full_room_instance_def)
  have c: "count_registrations cpython64 ?parsed = Inr full_room_instance"
    by code_simp
  have c': "count_registrations cpython64
      (?parsed\<lparr>exams_to_students := [] @ (0, 0) # [(0, 0)]\<rparr>) = Inr duplicate_instance"
    by code_simp
  have "py_increment (student_exam_capacity full_room_instance) 0 =
          Inr (student_exam_capacity duplicate_instance)"
    using duplicate_registration [OF h c] unfolding c' by auto
  then show ?thesis
    using h c c' duplicate_no_model check_answer_full_room by simp
qed

text \<open>
  The claim as the specification words it fails on the exam whose only student fills the
  only room: written once, the count is 1 and \<open>solve\<close> prints \<open>Satisfied\<close>; written twice,
  the count is 2, no interpretation satisfies the assertions and \<open>solve\<close> prints
  \<open>Unsatisfied\<close>.
\<close>

theorem duplicate_registration_counterexample:
  "read_file cpython64 full_room_file = Inr full_room_instance \<and>
   read_file cpython64 duplicate_file = Inr duplicate_instance \<and>
   exams_to_students duplicate_instance = (0, 0) # exams_to_students full_room_instance \<and>
   student_exam_capacity full_room_instance = [1] \<and>
   student_exam_capacity duplicate_instance = [2] \<and>
   check_answer full_room_instance (sat full_room_model) \<and>
   \<not> check_answer full_room_instance unsat \<and>
   solve full_room_instance (sat full_room_model) =
     Inr (Satisfied [(0, 0, 0, 1)] [Timetable 0 [(0, 0, 0)]] []) \<and>
   (\<nexists>m. check_answer duplicate_instance (sat m)) \<and>
   check_answer duplicate_instance unsat \<and>
   solve duplicate_instance unsat = Inr Unsatisfied"
proof -
  have u: "check_answer duplicate_instance unsat"
    unfolding check_answer_unsat_iff
    using check_answer_duplicate_unknown [unfolded check_answer_unknown_iff] duplicate_no_model
    by blast
  obtain cs where "constraints duplicate_instance = Inr cs"
    using check_answer_duplicate_unknown unfolding check_answer_unknown_iff by blast
  then have "solve duplicate_instance unsat = Inr Unsatisfied"
    by (rule solve_not_sat) simp
  moreover have "exams_to_students duplicate_instance =
      (0, 0) # exams_to_students full_room_instance"
    "student_exam_capacity full_room_instance = [1]"
    "student_exam_capacity duplicate_instance = [2]"
    by (simp_all add: duplicate_instance_def full_room_instance_def)
  moreover have "\<not> check_answer full_room_instance unsat"
    unfolding check_answer_unsat_iff using check_answer_full_room by blast
  ultimately show ?thesis
    using read_file_full_room read_file_duplicate check_answer_full_room solve_full_room
      duplicate_no_model u
    by simp
qed

text \<open>
  Claim C8 (two runs on the same input), as the program has it. The program has no
  ordering of its own that would single out one timetable among those that satisfy the
  assertions: it prints the model Z3 returns. Two runs on the same instance in both of
  which Z3 decides, that is, answers \<open>sat\<close> or \<open>unsat\<close>, raise no exception and print the
  same verdict: both \<open>Unsatisfied\<close>, or both \<open>Satisfied\<close>, each with the rooms and slots
  of the model Z3 returned in that run.
\<close>

theorem same_verdict:
  assumes "check_answer inst r1" and "check_answer inst r2"
    and "r1 \<noteq> unknown" and "r2 \<noteq> unknown"
  shows "(solve inst r1 = Inr Unsatisfied \<and> solve inst r2 = Inr Unsatisfied) \<or>
         (\<exists>m1 m2. r1 = sat m1 \<and> r2 = sat m2 \<and>
            solve inst r1 =
              Inr (Satisfied
                     (map (\<lambda>e. (e, ExamRoom m1 e, ExamTime m1 e,
                             student_exam_capacity inst ! nat e))
                        (py_range (number_of_exams inst)))
                     (student_lines inst m1) (students_with_many_exams inst m1)) \<and>
            solve inst r2 =
              Inr (Satisfied
                     (map (\<lambda>e. (e, ExamRoom m2 e, ExamTime m2 e,
                             student_exam_capacity inst ! nat e))
                        (py_range (number_of_exams inst)))
                     (student_lines inst m2) (students_with_many_exams inst m2)))"
proof (cases "\<exists>m. check_answer inst (sat m)")
  case True
  then have "\<not> check_answer inst unsat"
    unfolding check_answer_unsat_iff by blast
  then have "r1 \<noteq> unsat" "r2 \<noteq> unsat"
    using assms(1,2) by blast+
  then obtain m1 m2 where r: "r1 = sat m1" "r2 = sat m2"
    using assms(3,4) by (cases r1; cases r2) auto
  have "check_answer inst (sat m1)" "check_answer inst (sat m2)"
    using assms(1,2) r by simp_all
  then show ?thesis
    using solve_sat [of inst m1] solve_sat [of inst m2] r by blast
next
  case False
  then have "r1 = unsat" "r2 = unsat"
    using assms by (cases r1; cases r2; blast)+
  moreover obtain cs where "constraints inst = Inr cs"
    using assms(1) check_answer_constraints by blast
  ultimately show ?thesis
    using solve_not_sat [of inst cs unsat] by simp
qed

theorem same_verdict_witness:
  "check_answer scenario_instance (sat scenario_model) \<and>
   check_answer scenario_instance (sat mirror_model) \<and>
   sat scenario_model \<noteq> unknown \<and> sat mirror_model \<noteq> unknown \<and>
   (\<exists>rows lines warning.
      solve scenario_instance (sat scenario_model) = Inr (Satisfied rows lines warning)) \<and>
   (\<exists>rows lines warning.
      solve scenario_instance (sat mirror_model) = Inr (Satisfied rows lines warning))"
proof -
  have "solve scenario_instance (sat scenario_model) \<noteq> Inr Unsatisfied"
    using solve_scenario by simp
  then have "(\<exists>rows lines warning.
      solve scenario_instance (sat scenario_model) = Inr (Satisfied rows lines warning)) \<and>
    (\<exists>rows lines warning.
      solve scenario_instance (sat mirror_model) = Inr (Satisfied rows lines warning))"
    using same_verdict [OF check_answer_scenario check_answer_mirror] by auto
  then show ?thesis
    using check_answer_scenario check_answer_mirror by simp
qed

text \<open>
  The claim as the specification words it fails on the scenario instance: two models
  are answers Z3 may give, one with exams 0 and 1 in slots 0 and 2, one with them in
  slots 2 and 0, and \<open>solve\<close> prints a different timetable for each.
\<close>

theorem same_verdict_counterexample:
  "read_file cpython64 scenario_file = Inr scenario_instance \<and>
   check_answer scenario_instance (sat scenario_model) \<and>
   check_answer scenario_instance (sat mirror_model) \<and>
   solve scenario_instance (sat scenario_model) =
     Inr (Satisfied [(0, 0, 0, 1), (1, 0, 2, 1), (2, 0, 1, 1)]
            [Timetable 0 [(0, 0, 0), (1, 2, 0)], Timetable 1 [(2, 1, 0)]] []) \<and>
   solve scenario_instance (sat mirror_model) =
     Inr (Satisfied [(0, 0, 2, 1), (1, 0, 0, 1), (2, 0, 1, 1)]
            [Timetable 0 [(0, 2, 0), (1, 0, 0)], Timetable 1 [(2, 1, 0)]] []) \<and>
   solve scenario_instance (sat scenario_model) \<noteq> solve scenario_instance (sat mirror_model)"
  using read_file_scenario check_answer_scenario check_answer_mirror solve_scenario solve_mirror
  by simp

text \<open>
  Claim C9 (pigeonhole). With one room, one slot and two exams, \<open>solve\<close> prints
  \<open>Unsatisfied\<close>, whatever answer Z3 may give: both exams need the only pair of a room and
  a slot. The students of the two exams play no part in it.
\<close>

theorem pigeonhole_unsatisfied:
  assumes "number_of_rooms inst = 1" and "number_of_slots inst = 1"
    and "number_of_exams inst = 2" and "check_answer inst r"
  shows "solve inst r = Inr Unsatisfied"
proof -
  obtain cs where cs: "constraints inst = Inr cs"
    using assms(4) check_answer_constraints by blast
  have "r \<noteq> sat m" for m
    using pigeonhole_no_model [OF assms(1-3)] assms(4) by blast
  then have "r = unsat \<or> r = unknown"
    by (cases r) auto
  then show ?thesis
    using cs by (rule solve_not_sat [rotated])
qed

theorem pigeonhole_unsatisfied_witness:
  "read_file cpython64 pigeonhole_file = Inr pigeonhole_instance \<and>
   number_of_rooms pigeonhole_instance = 1 \<and> number_of_slots pigeonhole_instance = 1 \<and>
   number_of_exams pigeonhole_instance = 2 \<and> check_answer pigeonhole_instance unsat \<and>
   solve pigeonhole_instance unsat = Inr Unsatisfied"
proof -
  have n: "number_of_rooms pigeonhole_instance = 1" "number_of_slots pigeonhole_instance = 1"
    "number_of_exams pigeonhole_instance = 2"
    by (simp_all add: pigeonhole_instance_def)
  have "\<exists>cs. constraints pigeonhole_instance = Inr cs"
    by (rule constraints_defined) (simp_all add: pigeonhole_instance_def)
  then have c: "check_answer pigeonhole_instance unsat"
    unfolding check_answer_unsat_iff using pigeonhole_no_model [OF n] by blast
  show ?thesis
    using pigeonhole_unsatisfied [OF n c] n c read_file_pigeonhole by simp
qed


end
